theory Spec2Isabelle
  imports Complex_Main
begin

section \<open>Python values, exceptions and the pieces of the runtime the program uses\<close>

text \<open>
  Exceptions are values. The two \<^verbatim>\<open>RuntimeError\<close>s the program raises itself are kept
  apart: \<open>RuntimeError msg\<close> carries a literal message, \<open>RuntimeError_exit rc cmd err\<close>
  stands for the f-string message
  \<^verbatim>\<open>f"exiftool exit {rc}\n\nCommand:\n{cmd}\n\nStdErr:\n{err}"\<close> and carries its three
  interpolated parts. The others are raised by the interpreter or by a library.
\<close>

datatype error =
    RuntimeError string
  | RuntimeError_exit int "string list" string
  | TypeError
  | ValueError
  | IndexError
  | KeyError
  | ZeroDivisionError
  | OverflowError
  | AttributeError
  | OSError string
  | LibraryError string

text \<open>
  A Python \<^verbatim>\<open>float\<close>: a finite double (its exact value), an infinity or a NaN. Signed
  zeros are not distinguished.
\<close>

datatype pyfloat = Finite real | PosInf | NegInf | NaN

text \<open>
  The values that occur as metadata: JSON values decoded by \<^verbatim>\<open>json.loads\<close> and EXIF
  values delivered by the imaging library. \<open>PRational n d\<close> is the library's rational
  (\<^verbatim>\<open>IFDRational\<close>); \<open>PDict\<close> is a dictionary with string keys and \<open>PIfd\<close> one with
  integer tag ids as keys, both in insertion order with unique keys.
\<close>

datatype pyval =
    PNone
  | PBool bool
  | PInt int
  | PFloat pyfloat
  | PStr string
  | PRational int int
  | PTuple "pyval list"
  | PList "pyval list"
  | PDict "(string \<times> pyval) list"
  | PIfd "(int \<times> pyval) list"

text \<open>
  What the interpreter supplies and the program does not define: rounding of a real to
  the nearest double (overflowing to an infinity), \<^verbatim>\<open>float(s)\<close> for a string (\<open>None\<close>
  when it does not parse) and \<^verbatim>\<open>str(v)\<close> for a value that is not a string.
\<close>

record py_runtime =
  fround :: "real \<Rightarrow> pyfloat"
  float_of_str :: "string \<Rightarrow> pyfloat option"
  str_of :: "pyval \<Rightarrow> string"

subsection \<open>Truthiness, strings\<close>

fun py_truthy :: "pyval \<Rightarrow> bool" where
  "py_truthy PNone = False"
| "py_truthy (PBool b) = b"
| "py_truthy (PInt i) = (i \<noteq> 0)"
| "py_truthy (PFloat f) = (f \<noteq> Finite 0)"
| "py_truthy (PStr s) = (s \<noteq> [])"
| "py_truthy (PRational n d) = (n \<noteq> 0 \<or> d = 0)"
| "py_truthy (PTuple xs) = (xs \<noteq> [])"
| "py_truthy (PList xs) = (xs \<noteq> [])"
| "py_truthy (PDict kvs) = (kvs \<noteq> [])"
| "py_truthy (PIfd kvs) = (kvs \<noteq> [])"

text \<open>
  \<^verbatim>\<open>str.isspace\<close> on the ASCII range: tab to carriage return, the four separators
  0x1C..0x1F and the space. \<^verbatim>\<open>s.strip()\<close> removes such characters at both ends.
  \<^verbatim>\<open>upper\<close> and \<^verbatim>\<open>lower\<close> map the ASCII letters and leave every other character.
\<close>

definition py_isspace :: "char \<Rightarrow> bool" where
  "py_isspace c = ((of_char c :: nat) \<in> {9, 10, 11, 12, 13, 28, 29, 30, 31, 32})"

definition py_strip :: "string \<Rightarrow> string" where
  "py_strip s = rev (dropWhile py_isspace (rev (dropWhile py_isspace s)))"

definition py_upper_char :: "char \<Rightarrow> char" where
  "py_upper_char c =
     (case map_of (zip ''abcdefghijklmnopqrstuvwxyz'' ''ABCDEFGHIJKLMNOPQRSTUVWXYZ'') c of
        Some u \<Rightarrow> u
      | None \<Rightarrow> c)"

definition py_lower_char :: "char \<Rightarrow> char" where
  "py_lower_char c =
     (case map_of (zip ''ABCDEFGHIJKLMNOPQRSTUVWXYZ'' ''abcdefghijklmnopqrstuvwxyz'') c of
        Some l \<Rightarrow> l
      | None \<Rightarrow> c)"

definition py_upper :: "string \<Rightarrow> string" where
  "py_upper s = map py_upper_char s"

definition py_lower :: "string \<Rightarrow> string" where
  "py_lower s = map py_lower_char s"

text \<open>\<^verbatim>\<open>sub in s\<close> for strings: \<open>sub\<close> occurs as a contiguous piece of \<open>s\<close>.\<close>

fun py_contains :: "string \<Rightarrow> string \<Rightarrow> bool" where
  "py_contains sub [] = (sub = [])"
| "py_contains sub (c # cs) = (take (length sub) (c # cs) = sub \<or> py_contains sub cs)"

text \<open>\<^verbatim>\<open>k.split(':')[-1]\<close>: what follows the last colon (all of \<open>k\<close> without one).\<close>

definition last_segment :: "string \<Rightarrow> string" where
  "last_segment k = rev (takeWhile (\<lambda>c. c \<noteq> CHR '':'') (rev k))"

text \<open>\<^verbatim>\<open>str(v)\<close>: a string is itself, anything else is rendered by the interpreter.\<close>

definition py_str :: "py_runtime \<Rightarrow> pyval \<Rightarrow> string" where
  "py_str rt v = (case v of PStr s \<Rightarrow> s | _ \<Rightarrow> str_of rt v)"

subsection \<open>Dictionaries in insertion order\<close>

text \<open>
  \<^verbatim>\<open>d[k] = v\<close>: an existing key keeps its position and takes the new value, a new key
  goes to the end. \<^verbatim>\<open>d.get(k)\<close> is \<open>PNone\<close> for a missing key.
\<close>

fun dict_set :: "'k \<Rightarrow> 'v \<Rightarrow> ('k \<times> 'v) list \<Rightarrow> ('k \<times> 'v) list" where
  "dict_set k v [] = [(k, v)]"
| "dict_set k v ((k', v') # kvs) = (if k' = k then (k, v) # kvs else (k', v') # dict_set k v kvs)"

definition dict_get :: "('k \<times> pyval) list \<Rightarrow> 'k \<Rightarrow> pyval" where
  "dict_get d k = (case map_of d k of None \<Rightarrow> PNone | Some v \<Rightarrow> v)"

subsection \<open>Float conversion and arithmetic\<close>

text \<open>
  \<^verbatim>\<open>float(v)\<close>. An integer of magnitude up to \<open>2^53\<close> is a double; a larger one is
  rounded, and raises \<^verbatim>\<open>OverflowError\<close> when out of range. A rational with denominator
  zero is a NaN in the imaging library, any other is its quotient, rounded.
\<close>

definition finite_or_overflow :: "pyfloat \<Rightarrow> error + pyfloat" where
  "finite_or_overflow f = (case f of Finite r \<Rightarrow> Inr (Finite r) | _ \<Rightarrow> Inl OverflowError)"

fun py_float :: "py_runtime \<Rightarrow> pyval \<Rightarrow> error + pyfloat" where
  "py_float rt PNone = Inl TypeError"
| "py_float rt (PBool b) = Inr (Finite (if b then 1 else 0))"
| "py_float rt (PInt i) =
     (if \<bar>i\<bar> \<le> 2 ^ 53 then Inr (Finite (of_int i)) else finite_or_overflow (fround rt (of_int i)))"
| "py_float rt (PFloat f) = Inr f"
| "py_float rt (PStr s) = (case float_of_str rt s of None \<Rightarrow> Inl ValueError | Some f \<Rightarrow> Inr f)"
| "py_float rt (PRational n d) =
     (if d = 0 then Inr NaN else finite_or_overflow (fround rt (of_int n / of_int d)))"
| "py_float rt (PTuple xs) = Inl TypeError"
| "py_float rt (PList xs) = Inl TypeError"
| "py_float rt (PDict kvs) = Inl TypeError"
| "py_float rt (PIfd kvs) = Inl TypeError"

text \<open>
  Float division raises on a zero divisor; otherwise, and for addition and negation, the
  IEEE rules apply, with the exact result of two finite operands rounded.
\<close>

definition fsign :: "pyfloat \<Rightarrow> bool" where
  "fsign f = (case f of Finite r \<Rightarrow> r < 0 | NegInf \<Rightarrow> True | _ \<Rightarrow> False)"

definition finf :: "bool \<Rightarrow> pyfloat" where
  "finf neg = (if neg then NegInf else PosInf)"

fun fdiv :: "py_runtime \<Rightarrow> pyfloat \<Rightarrow> pyfloat \<Rightarrow> error + pyfloat" where
  "fdiv rt a (Finite y) =
     (if y = 0 then Inl ZeroDivisionError
      else case a of
             Finite x \<Rightarrow> Inr (fround rt (x / y))
           | NaN \<Rightarrow> Inr NaN
           | _ \<Rightarrow> Inr (finf (fsign a \<noteq> (y < 0))))"
| "fdiv rt a NaN = Inr NaN"
| "fdiv rt a b = (case a of Finite x \<Rightarrow> Inr (Finite 0) | _ \<Rightarrow> Inr NaN)"

fun fadd :: "py_runtime \<Rightarrow> pyfloat \<Rightarrow> pyfloat \<Rightarrow> pyfloat" where
  "fadd rt (Finite x) (Finite y) = fround rt (x + y)"
| "fadd rt (Finite x) PosInf = PosInf"
| "fadd rt (Finite x) NegInf = NegInf"
| "fadd rt (Finite x) NaN = NaN"
| "fadd rt PosInf (Finite y) = PosInf"
| "fadd rt PosInf PosInf = PosInf"
| "fadd rt PosInf NegInf = NaN"
| "fadd rt PosInf NaN = NaN"
| "fadd rt NegInf (Finite y) = NegInf"
| "fadd rt NegInf PosInf = NaN"
| "fadd rt NegInf NegInf = NegInf"
| "fadd rt NegInf NaN = NaN"
| "fadd rt NaN b = NaN"

fun fneg :: "pyfloat \<Rightarrow> pyfloat" where
  "fneg (Finite x) = Finite (- x)"
| "fneg PosInf = NegInf"
| "fneg NegInf = PosInf"
| "fneg NaN = NaN"

definition is_finite :: "pyfloat \<Rightarrow> bool" where
  "is_finite f = (case f of Finite r \<Rightarrow> True | _ \<Rightarrow> False)"

text \<open>
  Rounding to a double moves a real of magnitude up to 64 by at most half a unit in the
  last place of the interval from 32 to 64, which is \<open>2 ^ - 48\<close>. This is all the
  conversion needs to know about floating point.
\<close>

definition rounds_to_nearest :: "py_runtime \<Rightarrow> bool" where
  "rounds_to_nearest rt = (\<forall>x. \<bar>x\<bar> \<le> 64 \<longrightarrow> (\<exists>y. fround rt x = Finite y \<and> \<bar>y - x\<bar> \<le> 1 / 2 ^ 48))"

text \<open>Sequencing of computations that may raise: the first exception wins.\<close>

definition bindE :: "error + 'a \<Rightarrow> ('a \<Rightarrow> error + 'b) \<Rightarrow> error + 'b" where
  "bindE m f = (case m of Inl e \<Rightarrow> Inl e | Inr x \<Rightarrow> f x)"

section \<open>Selective strip: directive tables and the argument builder\<close>

text \<open>
  The three module constants of \<^verbatim>\<open>dbimgtoolset.py\<close> that hold the ExifTool directives
  of each strip category, copied string by string.
\<close>

definition GPS_ARGS :: "string list" where
  "GPS_ARGS = [''-GPS:all='']"

definition DEVICE_ARGS :: "string list" where
  "DEVICE_ARGS = [''-Make='', ''-Model='', ''-SerialNumber='', ''-BodySerialNumber='',
                  ''-CameraSerialNumber='', ''-LensSerialNumber='', ''-LensModel='',
                  ''-LensID='', ''-Artist='', ''-OwnerName='']"

definition DATETIME_ARGS :: "string list" where
  "DATETIME_ARGS = [''-DateTimeOriginal='', ''-CreateDate='', ''-ModifyDate='',
                    ''-SubSecTime*='', ''-OffsetTime*='']"

text \<open>
  \<^verbatim>\<open>build_strip_args(categories)\<close>: \<^verbatim>\<open>args\<close> starts empty and is extended in place by
  three consecutive \<^verbatim>\<open>if "<name>" in categories: args += ...\<close> statements. Python's
  \<^verbatim>\<open>in\<close> on a list is membership, so duplicates and order of \<^verbatim>\<open>categories\<close> play no role.
\<close>

definition build_strip_args :: "string list \<Rightarrow> string list" where
  "build_strip_args categories =
     (let args0 = [];
          args1 = (if ''gps'' \<in> set categories then args0 @ GPS_ARGS else args0);
          args2 = (if ''device'' \<in> set categories then args1 @ DEVICE_ARGS else args1);
          args3 = (if ''datetime'' \<in> set categories then args2 @ DATETIME_ARGS else args2)
      in args3)"

text \<open>
  The specification's reading of the builder, used to state the refinement: the fixed
  directive list of a category name (nothing for a name that is no category), and the
  categories of a request in the canonical order gps, device, datetime.
\<close>

definition spec_category_args :: "string \<Rightarrow> string list" where
  "spec_category_args c =
     (if c = ''gps'' then GPS_ARGS
      else if c = ''device'' then DEVICE_ARGS
      else if c = ''datetime'' then DATETIME_ARGS
      else [])"

definition spec_present :: "string list \<Rightarrow> string list" where
  "spec_present categories = filter (\<lambda>c. c \<in> set categories) [''gps'', ''device'', ''datetime'']"


section \<open>The environment: external tool, temporary files, imaging library\<close>

text \<open>
  Bytes are lists of octets. An image is what the imaging library hands out after
  \<^verbatim>\<open>Image.open\<close>: its colour mode, its size and its raster (kept opaque).
\<close>

type_synonym bytes = "nat list"

record image =
  mode :: string
  width :: nat
  height :: nat
  pixels :: "nat list"

record completed_process =
  returncode :: int
  stdout :: string
  stderr :: string

text \<open>
  Everything the module reads from its surroundings. \<open>EXIFTOOL\<close> and \<open>REMBG_OK\<close> are the
  two module-level globals computed at import time. The other fields are the library
  calls of the program, each returning its result or the exception it raises:
  \<^item> \<open>NamedTemporaryFile suffix data\<close> creates the scoped file, writes \<open>data\<close> and gives
    its name (\<^verbatim>\<open>with tempfile.NamedTemporaryFile(delete=False, suffix=...) as t: t.write(data)\<close>);
  \<^item> \<open>subprocess_run cmd data\<close> runs the command on an input file holding \<open>data\<close> and
    gives the completed process together with the content of the output file
    \<^verbatim>\<open>temp_in + ".out"\<close> if the tool left one (\<open>None\<close> when \<^verbatim>\<open>os.path.exists\<close> is false);
    the tool reads its input file and leaves it as written;
  \<^item> \<open>json_loads\<close>, \<open>Image_open\<close>, \<open>getexif\<close> (the image's \<^verbatim>\<open>_getexif()\<close>, \<open>PNone\<close> for an
    image class without it), the two tag-name tables \<open>TAGS\<close> and \<open>GPSTAGS\<close>;
  \<^item> the background remover: \<open>rembg_new_session\<close>, \<open>rembg_remove\<close>;
  \<^item> \<open>save_png\<close>: \<^verbatim>\<open>img.save(buf, "PNG")\<close> followed by \<^verbatim>\<open>buf.getvalue()\<close>.
\<close>

record env =
  EXIFTOOL :: "string option"
  REMBG_OK :: bool
  NamedTemporaryFile :: "string \<Rightarrow> bytes \<Rightarrow> error + string"
  subprocess_run :: "string list \<Rightarrow> bytes \<Rightarrow> error + (completed_process \<times> bytes option)"
  json_loads :: "string \<Rightarrow> error + pyval"
  Image_open :: "bytes \<Rightarrow> error + image"
  getexif :: "image \<Rightarrow> error + pyval"
  TAGS :: "int \<Rightarrow> string option"
  GPSTAGS :: "int \<Rightarrow> string option"
  rembg_new_session :: "string \<Rightarrow> error + nat"
  rembg_remove :: "bytes \<Rightarrow> nat \<Rightarrow> error + bytes"
  save_png :: "image \<Rightarrow> error + bytes"

text \<open>
  \<^verbatim>\<open>if not EXIFTOOL\<close>: the global is \<^verbatim>\<open>None\<close> or a path; an empty string would be falsy
  as well.
\<close>

definition exiftool_path :: "env \<Rightarrow> string option" where
  "exiftool_path env = (case EXIFTOOL env of None \<Rightarrow> None | Some p \<Rightarrow> if p = [] then None else Some p)"

section \<open>Reading metadata\<close>

subsection \<open>Through the external tool\<close>

text \<open>\<^verbatim>\<open>a or b\<close> on strings.\<close>

definition str_or :: "string \<Rightarrow> string \<Rightarrow> string" where
  "str_or a b = (if a \<noteq> [] then a else b)"

text \<open>\<^verbatim>\<open>obj[0]\<close> for a decoded JSON value (or any other value).\<close>

fun py_index0 :: "pyval \<Rightarrow> error + pyval" where
  "py_index0 (PList xs) = (case xs of [] \<Rightarrow> Inl IndexError | x # _ \<Rightarrow> Inr x)"
| "py_index0 (PTuple xs) = (case xs of [] \<Rightarrow> Inl IndexError | x # _ \<Rightarrow> Inr x)"
| "py_index0 (PStr s) = (case s of [] \<Rightarrow> Inl IndexError | c # _ \<Rightarrow> Inr (PStr [c]))"
| "py_index0 (PDict kvs) = Inl KeyError"
| "py_index0 (PIfd kvs) = (case map_of kvs 0 of None \<Rightarrow> Inl KeyError | Some v \<Rightarrow> Inr v)"
| "py_index0 v = Inl TypeError"

text \<open>
  The \<^verbatim>\<open>try\<close> block of \<^verbatim>\<open>exiftool_json_from_bytes\<close>: run the tool, reject an exit status
  other than 0 and 1, decode the standard output (\<^verbatim>\<open>[{}]\<close> when it is empty) and take
  the first element (\<^verbatim>\<open>{}\<close> when the decoded value is falsy).
\<close>

definition exiftool_json_try :: "env \<Rightarrow> py_runtime \<Rightarrow> string \<Rightarrow> bytes \<Rightarrow> string \<Rightarrow> error + pyval" where
  "exiftool_json_try env rt tool data temp_in =
     bindE (subprocess_run env [tool, ''-j'', ''-n'', ''-api'', ''largefilesupport=1'', temp_in] data)
       (\<lambda>(cp, out).
          if returncode cp \<noteq> 0 \<and> returncode cp \<noteq> 1
          then Inl (RuntimeError (str_or (py_strip (stderr cp)) (str_or (py_strip (stdout cp))
                      (''exiftool exit '' @ py_str rt (PInt (returncode cp))))))
          else bindE (if stdout cp \<noteq> [] then json_loads env (stdout cp) else Inr (PList [PDict []]))
                 (\<lambda>obj. if py_truthy obj then py_index0 obj else Inr (PDict [])))"

text \<open>
  \<^verbatim>\<open>exiftool_json_from_bytes\<close>. The temporary file is created and written before the
  \<^verbatim>\<open>try\<close> statement, so an exception of that step leaves the function; every exception of
  the \<^verbatim>\<open>try\<close> block is turned into \<^verbatim>\<open>{}\<close>. The \<^verbatim>\<open>finally\<close> clause removes the file and
  swallows its own exceptions, so it does not change the result.
\<close>

definition exiftool_json_from_bytes :: "env \<Rightarrow> py_runtime \<Rightarrow> bytes \<Rightarrow> string \<Rightarrow> error + pyval" where
  "exiftool_json_from_bytes env rt data hint_ext =
     (case exiftool_path env of
        None \<Rightarrow> Inr (PDict [])
      | Some tool \<Rightarrow>
          bindE (NamedTemporaryFile env hint_ext data)
            (\<lambda>temp_in. case exiftool_json_try env rt tool data temp_in of
                           Inl e \<Rightarrow> Inr (PDict [])
                         | Inr d \<Rightarrow> Inr d))"

subsection \<open>Through the imaging library\<close>

text \<open>\<^verbatim>\<open>v.items()\<close>; only dictionaries have it.\<close>

fun py_items :: "pyval \<Rightarrow> error + (pyval \<times> pyval) list" where
  "py_items (PDict kvs) = Inr (map (\<lambda>(k, v). (PStr k, v)) kvs)"
| "py_items (PIfd kvs) = Inr (map (\<lambda>(k, v). (PInt k, v)) kvs)"
| "py_items v = Inl AttributeError"

text \<open>\<^verbatim>\<open>TABLE.get(k, str(k))\<close> for a table keyed by integer tag ids.\<close>

definition tag_name :: "py_runtime \<Rightarrow> (int \<Rightarrow> string option) \<Rightarrow> pyval \<Rightarrow> string" where
  "tag_name rt table k =
     (case k of
        PInt i \<Rightarrow> (case table i of Some n \<Rightarrow> n | None \<Rightarrow> py_str rt k)
      | _ \<Rightarrow> py_str rt k)"

text \<open>The dictionary comprehension \<^verbatim>\<open>{TABLE.get(k, str(k)): v for k, v in d.items()}\<close>.\<close>

definition named_items :: "py_runtime \<Rightarrow> (int \<Rightarrow> string option) \<Rightarrow> (pyval \<times> pyval) list \<Rightarrow> (string \<times> pyval) list" where
  "named_items rt table kvs = foldl (\<lambda>d (k, v). dict_set (tag_name rt table k) v d) [] kvs"

text \<open>
  \<^verbatim>\<open>d, m, s = v\<close>: the elements of an iterable, which must be exactly three. Iterating a
  string gives its characters, iterating a dictionary its keys.
\<close>

fun py_iter :: "pyval \<Rightarrow> error + pyval list" where
  "py_iter (PTuple xs) = Inr xs"
| "py_iter (PList xs) = Inr xs"
| "py_iter (PStr s) = Inr (map (\<lambda>c. PStr [c]) s)"
| "py_iter (PDict kvs) = Inr (map (\<lambda>(k, v). PStr k) kvs)"
| "py_iter (PIfd kvs) = Inr (map (\<lambda>(k, v). PInt k) kvs)"
| "py_iter v = Inl TypeError"

definition unpack3 :: "pyval \<Rightarrow> error + (pyval \<times> pyval \<times> pyval)" where
  "unpack3 v = bindE (py_iter v)
     (\<lambda>xs. case xs of [d, m, s] \<Rightarrow> Inr (d, m, s) | _ \<Rightarrow> Inl ValueError)"

text \<open>
  The local \<^verbatim>\<open>as_float\<close>: a tuple is read as numerator and denominator, anything else
  goes through \<^verbatim>\<open>float\<close>.
\<close>

definition as_float :: "py_runtime \<Rightarrow> pyval \<Rightarrow> error + pyfloat" where
  "as_float rt r =
     (case r of
        PTuple xs \<Rightarrow>
          (case xs of
             [] \<Rightarrow> Inl IndexError
           | [a] \<Rightarrow> bindE (py_float rt a) (\<lambda>x. Inl IndexError)
           | a # b # _ \<Rightarrow> bindE (py_float rt a) (\<lambda>x. bindE (py_float rt b) (\<lambda>y. fdiv rt x y)))
      | _ \<Rightarrow> py_float rt r)"

text \<open>
  The local \<^verbatim>\<open>_to_deg\<close>: degrees plus minutes over 60.0 plus seconds over 3600.0, in
  floating point, and \<^verbatim>\<open>None\<close> for any exception.
\<close>

definition to_deg_try :: "py_runtime \<Rightarrow> pyval \<Rightarrow> error + pyfloat" where
  "to_deg_try rt v =
     bindE (unpack3 v) (\<lambda>(d, m, s).
     bindE (as_float rt d) (\<lambda>fd.
     bindE (as_float rt m) (\<lambda>fm.
     bindE (fdiv rt fm (Finite 60)) (\<lambda>qm.
     bindE (as_float rt s) (\<lambda>fs.
     bindE (fdiv rt fs (Finite 3600)) (\<lambda>qs.
     Inr (fadd rt (fadd rt fd qm) qs)))))))"

definition to_deg :: "py_runtime \<Rightarrow> pyval \<Rightarrow> pyfloat option" where
  "to_deg rt v = (case to_deg_try rt v of Inl e \<Rightarrow> None | Inr f \<Rightarrow> Some f)"

text \<open>
  \<^verbatim>\<open>(tagmap.get(key) or default).upper() == letter\<close>: only strings have \<^verbatim>\<open>upper\<close> among the
  values modelled here.
\<close>

definition ref_is :: "(string \<times> pyval) list \<Rightarrow> string \<Rightarrow> string \<Rightarrow> string \<Rightarrow> error + bool" where
  "ref_is tagmap key dflt letter =
     (let r = dict_get tagmap key;
          r' = (if py_truthy r then r else PStr dflt)
      in case r' of PStr s \<Rightarrow> Inr (py_upper s = letter) | _ \<Rightarrow> Inl AttributeError)"

text \<open>
  The block under \<^verbatim>\<open># Convert to decimal if possible\<close>: when both coordinates convert,
  the sign is flipped for the southern and the western hemisphere and both numbers
  replace the raw triples; otherwise \<open>tagmap\<close> stays as it is.
\<close>

definition gps_to_decimal :: "py_runtime \<Rightarrow> (string \<times> pyval) list \<Rightarrow> error + (string \<times> pyval) list" where
  "gps_to_decimal rt tagmap =
     (case (to_deg rt (dict_get tagmap ''GPSLatitude''), to_deg rt (dict_get tagmap ''GPSLongitude'')) of
        (Some lat, Some lon) \<Rightarrow>
          bindE (ref_is tagmap ''GPSLatitudeRef'' ''N'' ''S'') (\<lambda>south.
            let lat' = (if south then fneg lat else lat) in
            bindE (ref_is tagmap ''GPSLongitudeRef'' ''E'' ''W'') (\<lambda>west.
              let lon' = (if west then fneg lon else lon) in
              Inr (dict_set ''GPSLongitude'' (PFloat lon') (dict_set ''GPSLatitude'' (PFloat lat') tagmap))))
      | _ \<Rightarrow> Inr tagmap)"

text \<open>
  The block under \<^verbatim>\<open># GPS\<close>: when the \<^verbatim>\<open>GPSInfo\<close> entry is a non-empty dictionary, its four
  coordinate entries are copied to the top level (a missing one as \<^verbatim>\<open>None\<close>) and then
  converted.
\<close>

definition is_dict :: "pyval \<Rightarrow> bool" where
  "is_dict v = (case v of PDict kvs \<Rightarrow> True | PIfd kvs \<Rightarrow> True | _ \<Rightarrow> False)"

definition merge_gps :: "env \<Rightarrow> py_runtime \<Rightarrow> (string \<times> pyval) list \<Rightarrow> error + (string \<times> pyval) list" where
  "merge_gps env rt tagmap =
     (let gps = dict_get tagmap ''GPSInfo'' in
      if py_truthy gps \<and> is_dict gps then
        bindE (py_items gps) (\<lambda>items.
          let inv = named_items rt (GPSTAGS env) items;
              t1 = dict_set ''GPSLatitudeRef'' (dict_get inv ''GPSLatitudeRef'') tagmap;
              t2 = dict_set ''GPSLongitudeRef'' (dict_get inv ''GPSLongitudeRef'') t1;
              t3 = dict_set ''GPSLatitude'' (dict_get inv ''GPSLatitude'') t2;
              t4 = dict_set ''GPSLongitude'' (dict_get inv ''GPSLongitude'') t3
          in gps_to_decimal rt t4)
      else Inr tagmap)"

text \<open>
  \<^verbatim>\<open>pil_exif_fallback\<close>: the whole body is one \<^verbatim>\<open>try\<close> block whose handler returns \<^verbatim>\<open>{}\<close>.
\<close>

definition pil_exif_fallback_try :: "env \<Rightarrow> py_runtime \<Rightarrow> bytes \<Rightarrow> error + pyval" where
  "pil_exif_fallback_try env rt data =
     bindE (Image_open env data) (\<lambda>im.
     bindE (getexif env im) (\<lambda>info.
       if \<not> py_truthy info then Inr (PDict [])
       else bindE (py_items info) (\<lambda>items.
              bindE (merge_gps env rt (named_items rt (TAGS env) items)) (\<lambda>tagmap.
                Inr (PDict tagmap)))))"

definition pil_exif_fallback :: "env \<Rightarrow> py_runtime \<Rightarrow> bytes \<Rightarrow> error + pyval" where
  "pil_exif_fallback env rt data =
     (case pil_exif_fallback_try env rt data of Inl e \<Rightarrow> Inr (PDict []) | Inr d \<Rightarrow> Inr d)"

text \<open>\<^verbatim>\<open>read_exif_from_bytes\<close>: the tool's answer when it is truthy, the fallback otherwise.\<close>

definition read_exif_from_bytes :: "env \<Rightarrow> py_runtime \<Rightarrow> bytes \<Rightarrow> string \<Rightarrow> error + pyval" where
  "read_exif_from_bytes env rt data hint_ext =
     bindE (exiftool_json_from_bytes env rt data hint_ext)
       (\<lambda>d. if py_truthy d then Inr d else pil_exif_fallback env rt data)"

section \<open>Writing metadata\<close>

text \<open>
  \<^verbatim>\<open>exiftool_write_from_bytes\<close>. Without the tool it raises
  \<^verbatim>\<open>RuntimeError("ExifTool not available")\<close>. Otherwise it writes the input to a temporary
  file, runs \<^verbatim>\<open>[EXIFTOOL, "-m", "-o", temp_out] + list(args_list) + [temp_in]\<close> and decides
  on the exit status: with a status other than 0 and 1 the output file is returned when
  it exists and the \<^verbatim>\<open>RuntimeError\<close> with the stripped diagnostic stream (or \<^verbatim>\<open>(none)\<close>)
  is raised when not; with status 0 or 1 the output file is returned when it exists and
  the input file is read back when not. Exceptions of the temporary file and of
  \<^verbatim>\<open>subprocess.run\<close> are not caught here; the \<^verbatim>\<open>finally\<close> clause only removes files.
\<close>

definition exiftool_write_from_bytes :: "env \<Rightarrow> bytes \<Rightarrow> string list \<Rightarrow> string \<Rightarrow> error + bytes" where
  "exiftool_write_from_bytes env data args_list hint_ext =
     (case exiftool_path env of
        None \<Rightarrow> Inl (RuntimeError ''ExifTool not available'')
      | Some tool \<Rightarrow>
          bindE (NamedTemporaryFile env hint_ext data) (\<lambda>temp_in.
            let temp_out = temp_in @ ''.out'';
                cmd = [tool, ''-m'', ''-o'', temp_out] @ args_list @ [temp_in]
            in bindE (subprocess_run env cmd data) (\<lambda>(cp, out).
                 if returncode cp \<noteq> 0 \<and> returncode cp \<noteq> 1 then
                   (case out of
                      Some b \<Rightarrow> Inr b
                    | None \<Rightarrow> Inl (RuntimeError_exit (returncode cp) cmd
                                     (str_or (py_strip (stderr cp)) ''(none)'')))
                 else
                   (case out of Some b \<Rightarrow> Inr b | None \<Rightarrow> Inr data))))"

section \<open>Watermark\<close>

text \<open>
  The drawing side of the imaging library. A font has an optional \<^verbatim>\<open>size\<close> attribute
  (the built-in bitmap font has none). Rasters stay opaque: the library computes them,
  the operations below fix mode and size as the library documents them.
\<close>

record font =
  font_name :: string
  font_size :: "int option"

record pil =
  truetype :: "string \<Rightarrow> int \<Rightarrow> error + font"
  load_default :: font
  has_textlength :: bool
  textlength :: "string \<Rightarrow> font \<Rightarrow> real"
  textbbox_right :: "string \<Rightarrow> font \<Rightarrow> int"
  convert_pixels :: "string \<Rightarrow> image \<Rightarrow> nat list"
  text_pixels :: "image \<Rightarrow> int \<times> int \<Rightarrow> string \<Rightarrow> nat list \<Rightarrow> font \<Rightarrow> nat list"
  composite_pixels :: "image \<Rightarrow> image \<Rightarrow> nat list"

text \<open>\<^verbatim>\<open>img.convert(m)\<close>: a copy in mode \<open>m\<close>, same size.\<close>

definition Image_convert :: "pil \<Rightarrow> string \<Rightarrow> image \<Rightarrow> image" where
  "Image_convert p m img = img\<lparr>mode := m, pixels := convert_pixels p m img\<rparr>"

text \<open>\<^verbatim>\<open>Image.new(m, size, color)\<close>: every pixel is \<open>color\<close>.\<close>

definition Image_new :: "string \<Rightarrow> nat \<times> nat \<Rightarrow> nat list \<Rightarrow> image" where
  "Image_new m sz color =
     \<lparr>mode = m, width = fst sz, height = snd sz, pixels = concat (replicate (fst sz * snd sz) color)\<rparr>"

text \<open>\<^verbatim>\<open>ImageDraw.Draw(im).text(xy, text, fill, font)\<close>: draws into \<open>im\<close>, clipped to it.\<close>

definition draw_text :: "pil \<Rightarrow> image \<Rightarrow> int \<times> int \<Rightarrow> string \<Rightarrow> nat list \<Rightarrow> font \<Rightarrow> image" where
  "draw_text p im xy txt fill f = im\<lparr>pixels := text_pixels p im xy txt fill f\<rparr>"

text \<open>
  \<^verbatim>\<open>Image.alpha_composite(im1, im2)\<close>: both images must be RGBA and of the same size
  (\<^verbatim>\<open>ValueError\<close> otherwise); the result is a new RGBA image of that size.
\<close>

definition alpha_composite :: "pil \<Rightarrow> image \<Rightarrow> image \<Rightarrow> error + image" where
  "alpha_composite p im1 im2 =
     (if mode im1 \<noteq> ''RGBA'' \<or> mode im2 \<noteq> ''RGBA'' then Inl ValueError
      else if width im1 \<noteq> width im2 \<or> height im1 \<noteq> height im2 then Inl ValueError
      else Inr \<lparr>mode = ''RGBA'', width = width im1, height = height im1,
                pixels = composite_pixels p im1 im2\<rparr>)"

text \<open>\<^verbatim>\<open>int(x)\<close> for a finite float: truncation towards zero.\<close>

definition py_int :: "real \<Rightarrow> int" where
  "py_int r = (if 0 \<le> r then \<lfloor>r\<rfloor> else \<lceil>r\<rceil>)"

text \<open>
  \<^verbatim>\<open>add_watermark(img, text, opacity)\<close>: convert to RGBA, make a transparent overlay of the
  image's size, pick the font (the default one when \<^verbatim>\<open>arial.ttf\<close> cannot be loaded), place
  the text at the bottom right and composite the overlay over the image.
\<close>

definition add_watermark :: "pil \<Rightarrow> image \<Rightarrow> string \<Rightarrow> int \<Rightarrow> error + image" where
  "add_watermark p img0 txt opacity =
     (let img = Image_convert p ''RGBA'' img0;
          overlay = Image_new ''RGBA'' (width img, height img) [0, 0, 0, 0];
          fnt = (case truetype p ''arial.ttf'' (max 18 (int (width img) div 18)) of
                   Inl e \<Rightarrow> load_default p
                 | Inr f \<Rightarrow> f);
          tw = (if has_textlength p then textlength p txt fnt else of_int (textbbox_right p txt fnt));
          th = (case font_size fnt of None \<Rightarrow> 16 | Some s \<Rightarrow> s);
          x = max 8 (int (width img) - py_int tw - 20);
          y = max 8 (int (height img) - th - 20);
          overlay' = draw_text p overlay (x, y) txt [255, 255, 255, nat (max 10 (min opacity 255))] fnt
      in alpha_composite p img overlay')"

section \<open>Summary of the metadata\<close>

text \<open>The dataclass \<^verbatim>\<open>ExifSummary\<close>; its field \<^verbatim>\<open>make\<close> is \<open>make'\<close> here.\<close>

record ExifSummary =
  gps :: "(pyfloat \<times> pyfloat) option"
  make' :: pyval
  model :: pyval
  owner :: pyval
  software :: pyval
  captured :: pyval
  serials :: "string list"

text \<open>
  The local \<^verbatim>\<open>gv(*keys)\<close>: the value of the first key that is present with a value whose
  \<^verbatim>\<open>str\<close> is not blank; \<^verbatim>\<open>None\<close> when there is none.
\<close>

fun gv :: "py_runtime \<Rightarrow> (string \<times> pyval) list \<Rightarrow> string list \<Rightarrow> pyval" where
  "gv rt ex [] = PNone"
| "gv rt ex (k # ks) =
     (case map_of ex k of
        Some v \<Rightarrow> if py_strip (py_str rt v) \<noteq> [] then v else gv rt ex ks
      | None \<Rightarrow> gv rt ex ks)"

text \<open>
  The GPS part of \<^verbatim>\<open>summarize_exif\<close>: \<^verbatim>\<open>gps\<close> becomes the pair
  \<^verbatim>\<open>(float(lat), float(lon))\<close> when both values are there and both conversions return; an
  exception of either conversion leaves \<^verbatim>\<open>None\<close>.
\<close>

definition summary_gps :: "py_runtime \<Rightarrow> pyval \<Rightarrow> pyval \<Rightarrow> (pyfloat \<times> pyfloat) option" where
  "summary_gps rt lat lon =
     (if lat \<noteq> PNone \<and> lon \<noteq> PNone then
        (case bindE (py_float rt lat) (\<lambda>a. bindE (py_float rt lon) (\<lambda>b. Inr (a, b))) of
           Inl e \<Rightarrow> None
         | Inr pair \<Rightarrow> Some pair)
      else None)"

text \<open>
  The serial list: every entry whose key contains \<^verbatim>\<open>serial\<close> (case-insensitively) and
  whose value is not blank, rendered as \<^verbatim>\<open>f"{k.split(':')[-1]}: {v}"\<close>, in dictionary order.
\<close>

definition summary_serials :: "py_runtime \<Rightarrow> (string \<times> pyval) list \<Rightarrow> string list" where
  "summary_serials rt ex =
     map (\<lambda>(k, v). last_segment k @ '': '' @ py_str rt v)
       (filter (\<lambda>(k, v). py_contains ''serial'' (py_lower k) \<and> py_strip (py_str rt v) \<noteq> []) ex)"

definition summarize_exif :: "py_runtime \<Rightarrow> (string \<times> pyval) list \<Rightarrow> ExifSummary" where
  "summarize_exif rt ex =
     (let lat = gv rt ex [''GPSLatitude'', ''EXIF:GPSLatitude''];
          lon = gv rt ex [''GPSLongitude'', ''EXIF:GPSLongitude'']
      in \<lparr>gps = summary_gps rt lat lon,
          make' = gv rt ex [''Make'', ''EXIF:Make'', ''XMP:Make''],
          model = gv rt ex [''Model'', ''EXIF:Model'', ''XMP:Model''],
          owner = gv rt ex [''Artist'', ''EXIF:Artist'', ''XMP:Creator'', ''XMP:OwnerName'',
                             ''Microsoft:XPAuthor''],
          software = gv rt ex [''Software'', ''EXIF:Software'', ''XMP:CreatorTool''],
          captured = gv rt ex [''DateTimeOriginal'', ''EXIF:DateTimeOriginal'', ''CreateDate'',
                                ''EXIF:CreateDate''],
          serials = summary_serials rt ex\<rparr>)"

section \<open>The session state and the SAFE action\<close>

text \<open>
  The attributes of \<^verbatim>\<open>App\<close> that hold the one image of the session, the strip-only
  check box, the background remover's session (absent until first use) and the status
  line. Message boxes are an output of the program: \<open>dialogs\<close> lists the ones shown, in
  order. The preview, the details pane and the button states are recomputed from these
  attributes for display only and are not part of the model.
\<close>

datatype dialog = ShowError string error | ShowWarning string string

record app =
  original_path :: "string option"
  original_bytes :: "bytes option"
  current_bytes :: "bytes option"
  current_image :: "image option"
  current_exif :: pyval
  current_ext :: string
  var_striponly :: bool
  rembg_session :: "nat option"
  status :: string
  dialogs :: "dialog list"

text \<open>
  \<^verbatim>\<open>_set_from_bytes(data, ext_hint, status)\<close>. The bytes are stored first. When they do
  not decode, an error box is shown, image and metadata are cleared and the method
  returns normally. Otherwise the image is stored, the extension hint is updated
  (\<^verbatim>\<open>ext_hint or self.current_ext\<close>), the metadata is read again and the status line is
  set. The result pairs the exception that left the method, if any, with the state at
  that moment.
\<close>

definition set_from_bytes ::
  "env \<Rightarrow> py_runtime \<Rightarrow> bytes \<Rightarrow> string option \<Rightarrow> string option \<Rightarrow> app \<Rightarrow> error option \<times> app" where
  "set_from_bytes env rt data ext_hint status_msg st =
     (let st1 = st\<lparr>current_bytes := Some data\<rparr> in
      case Image_open env data of
        Inl e \<Rightarrow>
          (None, st1\<lparr>current_image := None, current_exif := PDict [],
                      dialogs := dialogs st1 @ [ShowError ''Open'' e]\<rparr>)
      | Inr im \<Rightarrow>
          (let st2 = st1\<lparr>current_image := Some im\<rparr>;
               ext = (case ext_hint of None \<Rightarrow> current_ext st2 | Some h \<Rightarrow> str_or h (current_ext st2));
               st3 = st2\<lparr>current_ext := ext\<rparr>
           in (case read_exif_from_bytes env rt data (current_ext st3) of
                 Inl e \<Rightarrow> (Some e, st3)
               | Inr d \<Rightarrow>
                   (let st4 = st3\<lparr>current_exif := d\<rparr>;
                        st5 = (case status_msg of
                                 None \<Rightarrow> st4
                               | Some s \<Rightarrow> (if s \<noteq> [] then st4\<lparr>status := s\<rparr> else st4))
                    in (None, st5)))))"

text \<open>The directives of a SAFE run: \<^verbatim>\<open>build_strip_args(["gps","device","datetime"])\<close>.\<close>

definition safe_args :: "string list" where
  "safe_args = build_strip_args [''gps'', ''device'', ''datetime'']"

text \<open>
  The stages of the full pipeline, in the order of the \<^verbatim>\<open>try\<close> block of \<^verbatim>\<open>action_safe\<close>.

  Background removal (\<^verbatim>\<open>if REMBG_OK:\<close>): the remover's session is created on first use and
  kept in the state; the stage yields the new bytes and the hint \<^verbatim>\<open>.png\<close>. Without the
  remover, bytes and hint pass through.
\<close>

definition background_stage :: "env \<Rightarrow> app \<Rightarrow> bytes \<Rightarrow> string \<Rightarrow> (error + bytes \<times> string) \<times> app" where
  "background_stage env st data ext_hint =
     (if REMBG_OK env then
        (case (case rembg_session st of
                 Some s \<Rightarrow> (Inr s, st)
               | None \<Rightarrow> (case rembg_new_session env ''u2net'' of
                            Inl e \<Rightarrow> (Inl e, st)
                          | Inr s \<Rightarrow> (Inr s, st\<lparr>rembg_session := Some s\<rparr>)))
         of (Inl e, st') \<Rightarrow> (Inl e, st')
          | (Inr s, st') \<Rightarrow>
              (case rembg_remove env data s of
                 Inl e \<Rightarrow> (Inl e, st')
               | Inr out \<Rightarrow> (Inr (out, ''.png''), st')))
      else (Inr (data, ext_hint), st))"

text \<open>Metadata strip (\<^verbatim>\<open>if EXIFTOOL:\<close>): the writer with the SAFE directives, or nothing.\<close>

definition strip_stage :: "env \<Rightarrow> bytes \<Rightarrow> string \<Rightarrow> error + bytes" where
  "strip_stage env data ext_hint =
     (case exiftool_path env of
        None \<Rightarrow> Inr data
      | Some tool \<Rightarrow> exiftool_write_from_bytes env data safe_args ext_hint)"

text \<open>
  Watermark: \<^verbatim>\<open>open_image_any(data)\<close> (the argument is a byte string, so this is
  \<^verbatim>\<open>Image.open\<close>), \<^verbatim>\<open>add_watermark(img, "SAFE", opacity=160)\<close> and \<^verbatim>\<open>to_png_bytes\<close>.
\<close>

definition watermark_stage :: "env \<Rightarrow> pil \<Rightarrow> bytes \<Rightarrow> error + bytes" where
  "watermark_stage env p data =
     bindE (Image_open env data) (\<lambda>img.
     bindE (add_watermark p img ''SAFE'' 160) (\<lambda>img'.
     save_png env img'))"

definition full_stages :: "env \<Rightarrow> pil \<Rightarrow> app \<Rightarrow> bytes \<Rightarrow> (error + bytes) \<times> app" where
  "full_stages env p st data =
     (case background_stage env st data (current_ext st) of
        (Inl e, st') \<Rightarrow> (Inl e, st')
      | (Inr (data1, ext_hint), st') \<Rightarrow>
          (bindE (strip_stage env data1 ext_hint) (\<lambda>data2. watermark_stage env p data2), st'))"

text \<open>
  An exception caught by one of the \<^verbatim>\<open>except Exception as e\<close> handlers of the action: an
  error box with the handler's title, nothing else.
\<close>

definition report :: "string \<Rightarrow> error \<Rightarrow> app \<Rightarrow> app" where
  "report title e st = st\<lparr>dialogs := dialogs st @ [ShowError title e]\<rparr>"

definition finish :: "string \<Rightarrow> error option \<times> app \<Rightarrow> app" where
  "finish title r = (case r of (None, st) \<Rightarrow> st | (Some e, st) \<Rightarrow> report title e st)"

text \<open>
  \<^verbatim>\<open>action_safe\<close>. Nothing happens without current bytes. With the check box set, the
  action needs the tool (a warning box otherwise), runs the writer once and makes its
  result current under the unchanged hint. Without it, the three stages run and the PNG
  bytes are made current under the hint \<^verbatim>\<open>.png\<close>. In both branches one \<^verbatim>\<open>try\<close> block spans
  the stages and the call of \<^verbatim>\<open>_set_from_bytes\<close>.
\<close>

definition action_safe :: "env \<Rightarrow> pil \<Rightarrow> py_runtime \<Rightarrow> app \<Rightarrow> app" where
  "action_safe env p rt st =
     (case current_bytes st of
        None \<Rightarrow> st
      | Some cur \<Rightarrow>
          if cur = [] then st
          else if var_striponly st then
            (case exiftool_path env of
               None \<Rightarrow> st\<lparr>dialogs := dialogs st @
                          [ShowWarning ''ExifTool required'' ''Strip-only SAFE needs ExifTool.'']\<rparr>
             | Some tool \<Rightarrow>
                 (case exiftool_write_from_bytes env cur safe_args (current_ext st) of
                    Inl e \<Rightarrow> report ''SAFE (strip-only)'' e st
                  | Inr data \<Rightarrow>
                      finish ''SAFE (strip-only)''
                        (set_from_bytes env rt data (Some (current_ext st))
                           (Some ''SAFE (strip-only) created and set as current.'') st)))
          else
            (case full_stages env p st cur of
               (Inl e, st') \<Rightarrow> report ''SAFE (full)'' e st'
             | (Inr png, st') \<Rightarrow>
                 finish ''SAFE (full)''
                   (set_from_bytes env rt png (Some ''.png'')
                      (Some ''SAFE copy created (full) and set as current.'') st')))"

text \<open>
  The image state of the session: current bytes, decoded image, metadata and format hint.
\<close>

definition image_state :: "app \<Rightarrow> bytes option \<times> image option \<times> pyval \<times> string" where
  "image_state st = (current_bytes st, current_image st, current_exif st, current_ext st)"

section \<open>Sample surroundings for concrete runs\<close>

text \<open>
  A runtime for the examples: rounding is exact, \<^verbatim>\<open>float\<close> knows the two strings
  \<^verbatim>\<open>inf\<close> and \<^verbatim>\<open>nan\<close>, and \<^verbatim>\<open>str\<close> is the interpreter's on \<^verbatim>\<open>None\<close>, the booleans and
  the non-finite floats (a placeholder stands for the other values, whose text plays no
  role in the examples).
\<close>

fun sample_str :: "pyval \<Rightarrow> string" where
  "sample_str PNone = ''None''"
| "sample_str (PBool b) = (if b then ''True'' else ''False'')"
| "sample_str (PFloat f) = (case f of NaN \<Rightarrow> ''nan'' | PosInf \<Rightarrow> ''inf'' | NegInf \<Rightarrow> ''-inf''
                            | Finite r \<Rightarrow> ''<float>'')"
| "sample_str (PStr s) = s"
| "sample_str v = ''<value>''"

definition rt_sample :: py_runtime where
  "rt_sample = \<lparr>fround = Finite,
                float_of_str = (\<lambda>s. if s = ''inf'' then Some PosInf
                                     else if s = ''nan'' then Some NaN else None),
                str_of = sample_str\<rparr>"

text \<open>
  A toy codec for the examples: a byte string decodes when it has at least two bytes,
  read as width, height and raster; \<open>sample_save\<close> writes that layout. An image has no
  EXIF block. The temporary file gets a fixed name with the requested suffix; as in
  the standard library, a suffix with a NUL character is rejected with \<^verbatim>\<open>ValueError\<close>.
\<close>

definition sample_open :: "bytes \<Rightarrow> error + image" where
  "sample_open b =
     (case b of
        w # h # rest \<Rightarrow> Inr \<lparr>mode = ''RGB'', width = w, height = h, pixels = rest\<rparr>
      | _ \<Rightarrow> Inl (LibraryError ''cannot identify image file''))"

definition sample_save :: "image \<Rightarrow> error + bytes" where
  "sample_save im = Inr (width im # height im # pixels im)"

definition sample_tempfile :: "string \<Rightarrow> bytes \<Rightarrow> error + string" where
  "sample_tempfile suffix data =
     (if CHR 0x00 \<in> set suffix then Inl ValueError else Inr (''/tmp/tmpk3v9'' @ suffix))"

definition sample_env ::
  "string option \<Rightarrow> bool \<Rightarrow> (string list \<Rightarrow> bytes \<Rightarrow> error + (completed_process \<times> bytes option)) \<Rightarrow> env" where
  "sample_env tool bg run =
     \<lparr>EXIFTOOL = tool,
      REMBG_OK = bg,
      NamedTemporaryFile = sample_tempfile,
      subprocess_run = run,
      json_loads = (\<lambda>s. if s = ''[{}]'' then Inr (PList [PDict []]) else Inl ValueError),
      Image_open = sample_open,
      getexif = (\<lambda>im. Inr PNone),
      TAGS = (\<lambda>k. if k = 271 then Some ''Make'' else if k = 34853 then Some ''GPSInfo'' else None),
      GPSTAGS = (\<lambda>k. if k = 1 then Some ''GPSLatitudeRef'' else if k = 2 then Some ''GPSLatitude''
                      else if k = 3 then Some ''GPSLongitudeRef'' else if k = 4 then Some ''GPSLongitude''
                      else None),
      rembg_new_session = (\<lambda>name. Inr 1),
      rembg_remove = (\<lambda>data s. Inr (data @ [s])),
      save_png = sample_save\<rparr>"

text \<open>
  Tool behaviours: \<open>tool_exit rc out\<close> ends with status \<open>rc\<close>, prints an empty JSON
  list element and leaves the output file \<open>out\<close> (or none).
\<close>

definition tool_exit :: "int \<Rightarrow> bytes option \<Rightarrow> string list \<Rightarrow> bytes \<Rightarrow> error + (completed_process \<times> bytes option)" where
  "tool_exit rc out cmd data = Inr (\<lparr>returncode = rc, stdout = ''[{}]'', stderr = '' Error: bad file ''\<rparr>, out)"

definition sample_pil :: pil where
  "sample_pil =
     \<lparr>truetype = (\<lambda>name size. Inl (OSError ''cannot open resource'')),
      load_default = \<lparr>font_name = ''default'', font_size = None\<rparr>,
      has_textlength = True,
      textlength = (\<lambda>txt f. 24),
      textbbox_right = (\<lambda>txt f. 24),
      convert_pixels = (\<lambda>m im. pixels im),
      text_pixels = (\<lambda>im xy txt fill f. pixels im),
      composite_pixels = (\<lambda>a b. pixels a)\<rparr>"

definition sample_app :: "bool \<Rightarrow> app" where
  "sample_app strip_only =
     \<lparr>original_path = Some ''photo.jpg'',
      original_bytes = Some [2, 1, 7, 7],
      current_bytes = Some [2, 1, 7, 7],
      current_image = Some \<lparr>mode = ''RGB'', width = 2, height = 1, pixels = [7, 7]\<rparr>,
      current_exif = PDict [(''Make'', PStr ''ACME'')],
      current_ext = ''.jpg'',
      var_striponly = strip_only,
      rembg_session = None,
      status = ''Loaded.'',
      dialogs = []\<rparr>"

section \<open>Properties of the argument builder\<close>

lemma build_strip_args_unfold:
  "build_strip_args cs =
     (if ''gps'' \<in> set cs then GPS_ARGS else []) @
     (if ''device'' \<in> set cs then DEVICE_ARGS else []) @
     (if ''datetime'' \<in> set cs then DATETIME_ARGS else [])"
  by (simp add: build_strip_args_def)

lemma spec_present_concat:
  "concat (map spec_category_args (spec_present cs)) =
     (if ''gps'' \<in> set cs then GPS_ARGS else []) @
     (if ''device'' \<in> set cs then DEVICE_ARGS else []) @
     (if ''datetime'' \<in> set cs then DATETIME_ARGS else [])"
  by (simp add: spec_present_def spec_category_args_def)

text \<open>
  C4. Whatever list of names is passed (any order, duplicates, unknown names), the builder
  returns the concatenation of the fixed directive lists of the categories that occur in
  it, in the order gps, device, datetime, and its length is the sum of the lengths of
  those lists. The result is the one for the categories present taken in canonical
  order, so neither the order of the names nor an unknown name has any influence.
\<close>

theorem build_strip_args_canonical:
  "build_strip_args cs = concat (map spec_category_args (spec_present cs))
   \<and> length (build_strip_args cs) = sum_list (map (\<lambda>c. length (spec_category_args c)) (spec_present cs))
   \<and> build_strip_args (spec_present cs) = build_strip_args cs
   \<and> build_strip_args (rev cs) = build_strip_args cs
   \<and> build_strip_args (filter (\<lambda>c. c \<in> {''gps'', ''device'', ''datetime''}) cs) = build_strip_args cs"
proof -
  have eq: "build_strip_args cs = concat (map spec_category_args (spec_present cs))"
    by (simp only: build_strip_args_unfold spec_present_concat)
  have len: "length (concat (map spec_category_args (spec_present cs)))
             = sum_list (map (\<lambda>c. length (spec_category_args c)) (spec_present cs))"
    by (simp add: length_concat comp_def)
  have r: "build_strip_args (rev cs) = build_strip_args cs"
    by (simp add: build_strip_args_unfold)
  have f: "build_strip_args (filter (\<lambda>c. c \<in> {''gps'', ''device'', ''datetime''}) cs) = build_strip_args cs"
    by (simp add: build_strip_args_unfold)
  have c: "build_strip_args (spec_present cs) = build_strip_args cs"
    by (simp add: build_strip_args_unfold spec_present_def)
  show ?thesis using eq len c r f by simp
qed

text \<open>
  C5 (as the code has it). The device category holds ten directives, not nine: make,
  model, four serial-number fields, two lens fields, artist and owner name.
\<close>

theorem device_args_ten:
  "length DEVICE_ARGS = 10
   \<and> build_strip_args [''device''] = DEVICE_ARGS
   \<and> spec_category_args ''device'' = DEVICE_ARGS
   \<and> set DEVICE_ARGS = {''-Make='', ''-Model='', ''-SerialNumber='', ''-BodySerialNumber='',
        ''-CameraSerialNumber='', ''-LensSerialNumber='', ''-LensModel='', ''-LensID='',
        ''-Artist='', ''-OwnerName=''}
   \<and> distinct DEVICE_ARGS"
  by (simp add: build_strip_args_def spec_category_args_def) (simp add: DEVICE_ARGS_def)

theorem device_args_not_nine: "length DEVICE_ARGS \<noteq> 9"
  by (simp add: DEVICE_ARGS_def)


section \<open>Properties of the watermark\<close>

text \<open>
  C10. For every image, whatever text, opacity and fonts, \<^verbatim>\<open>add_watermark\<close> returns an
  image (it does not raise), the image is in RGBA mode, and its width and height are
  those of the input: the overlay is composited in place.
\<close>

theorem add_watermark_keeps_size:
  "\<exists>out. add_watermark p img txt opacity = Inr out \<and> mode out = ''RGBA''
         \<and> width out = width img \<and> height out = height img"
  by (simp add: add_watermark_def Let_def alpha_composite_def Image_convert_def Image_new_def
        draw_text_def)

section \<open>Properties of the metadata writer\<close>

text \<open>
  C2. Without the tool the writer raises \<^verbatim>\<open>RuntimeError("ExifTool not available")\<close>. With
  the tool, once the temporary file is written and the tool has run to an exit status,
  the writer does not raise that error: for status 0 or 1 it returns the output file
  when there is one and the input bytes when not; for any other status it returns the
  output file when there is one and raises the \<^verbatim>\<open>RuntimeError\<close> that carries status,
  command and the stripped diagnostic stream (\<^verbatim>\<open>(none)\<close> when blank) when not.
\<close>

theorem exiftool_write_contract:
  "(exiftool_path env = None \<longrightarrow>
      exiftool_write_from_bytes env data args hint = Inl (RuntimeError ''ExifTool not available''))
   \<and> (\<forall>tool temp_in cp out.
        exiftool_path env = Some tool
        \<and> NamedTemporaryFile env hint data = Inr temp_in
        \<and> subprocess_run env ([tool, ''-m'', ''-o'', temp_in @ ''.out''] @ args @ [temp_in]) data = Inr (cp, out)
        \<longrightarrow> exiftool_write_from_bytes env data args hint \<noteq> Inl (RuntimeError ''ExifTool not available'')
            \<and> exiftool_write_from_bytes env data args hint =
                (if returncode cp = 0 \<or> returncode cp = 1
                 then Inr (case out of Some b \<Rightarrow> b | None \<Rightarrow> data)
                 else (case out of
                         Some b \<Rightarrow> Inr b
                       | None \<Rightarrow> Inl (RuntimeError_exit (returncode cp)
                                        ([tool, ''-m'', ''-o'', temp_in @ ''.out''] @ args @ [temp_in])
                                        (str_or (py_strip (stderr cp)) ''(none)'')))))"
  by (auto simp: exiftool_write_from_bytes_def bindE_def Let_def split: option.splits)

theorem exiftool_write_contract_witness:
  "exiftool_write_from_bytes (sample_env None False (tool_exit 0 None)) [2, 1, 7, 7] GPS_ARGS ''.jpg''
     = Inl (RuntimeError ''ExifTool not available'')
   \<and> exiftool_write_from_bytes (sample_env (Some ''exiftool'') False (tool_exit 1 None)) [2, 1, 7, 7] GPS_ARGS ''.jpg''
     = Inr [2, 1, 7, 7]
   \<and> exiftool_write_from_bytes (sample_env (Some ''exiftool'') False (tool_exit 0 (Some [2, 1, 8, 8]))) [2, 1, 7, 7] GPS_ARGS ''.jpg''
     = Inr [2, 1, 8, 8]
   \<and> exiftool_write_from_bytes (sample_env (Some ''exiftool'') False (tool_exit 2 (Some [2, 1]))) [2, 1, 7, 7] GPS_ARGS ''.jpg''
     = Inr [2, 1]
   \<and> exiftool_write_from_bytes (sample_env (Some ''exiftool'') False (tool_exit 2 None)) [2, 1, 7, 7] GPS_ARGS ''.jpg''
     = Inl (RuntimeError_exit 2
             [''exiftool'', ''-m'', ''-o'', ''/tmp/tmpk3v9.jpg.out'', ''-GPS:all='', ''/tmp/tmpk3v9.jpg'']
             ''Error: bad file'')"
proof -
  let ?d = "[2, 1, 7, 7] :: bytes"
  have a: "exiftool_path (sample_env None False (tool_exit 0 None)) = None"
    by (simp add: exiftool_path_def sample_env_def)
  have p: "\<And>run. exiftool_path (sample_env (Some ''exiftool'') False run) = Some ''exiftool''"
    by (simp add: exiftool_path_def sample_env_def)
  have t: "\<And>run. NamedTemporaryFile (sample_env (Some ''exiftool'') False run) ''.jpg'' ?d = Inr ''/tmp/tmpk3v9.jpg''"
    by (simp add: sample_env_def sample_tempfile_def)
  have r: "\<And>rc out cmd. subprocess_run (sample_env (Some ''exiftool'') False (tool_exit rc out)) cmd ?d
             = Inr (\<lparr>returncode = rc, stdout = ''[{}]'', stderr = '' Error: bad file ''\<rparr>, out)"
    by (simp add: sample_env_def tool_exit_def)
  have s: "py_strip '' Error: bad file '' = ''Error: bad file''"
    by (simp add: py_strip_def py_isspace_def)
  have g: "exiftool_write_from_bytes E ?d GPS_ARGS ''.jpg'' =
             (if returncode cp = 0 \<or> returncode cp = 1
              then Inr (case out of Some b \<Rightarrow> b | None \<Rightarrow> ?d)
              else (case out of
                      Some b \<Rightarrow> Inr b
                    | None \<Rightarrow> Inl (RuntimeError_exit (returncode cp)
                                     ([tool, ''-m'', ''-o'', ti @ ''.out''] @ GPS_ARGS @ [ti])
                                     (str_or (py_strip (stderr cp)) ''(none)''))))"
    if "exiftool_path E = Some tool" "NamedTemporaryFile E ''.jpg'' ?d = Inr ti"
       "subprocess_run E ([tool, ''-m'', ''-o'', ti @ ''.out''] @ GPS_ARGS @ [ti]) ?d = Inr (cp, out)"
    for E tool ti cp out
    using exiftool_write_contract[of E ?d GPS_ARGS "''.jpg''"] that by blast
  have g1: "exiftool_write_from_bytes (sample_env None False (tool_exit 0 None)) ?d GPS_ARGS ''.jpg''
     = Inl (RuntimeError ''ExifTool not available'')"
    using exiftool_write_contract[of "sample_env None False (tool_exit 0 None)" ?d GPS_ARGS "''.jpg''"] a
    by blast
  show ?thesis
    using g1 g[OF p t r, of 1 None] g[OF p t r, of 0 "Some [2, 1, 8, 8]"]
      g[OF p t r, of 2 "Some [2, 1]"] g[OF p t r, of 2 None]
    by (simp add: s str_or_def GPS_ARGS_def)
qed


section \<open>Properties of the metadata reader\<close>

lemma pil_exif_fallback_returns: "\<exists>d. pil_exif_fallback env rt data = Inr d"
  by (simp add: pil_exif_fallback_def split: sum.splits)

lemma exiftool_json_returns:
  assumes "exiftool_path env = None \<or> (\<exists>t. NamedTemporaryFile env hint data = Inr t)"
  shows "\<exists>d. exiftool_json_from_bytes env rt data hint = Inr d"
  using assms
  by (auto simp: exiftool_json_from_bytes_def bindE_def split: option.splits sum.splits)

text \<open>
  Every failure of the tool, of the JSON decoder, of the image decoder or of the EXIF
  block ends in a mapping: once the temporary file exists (or when there is no tool),
  the reader returns.
\<close>

lemma read_exif_returns_after_tempfile:
  assumes "exiftool_path env = None \<or> (\<exists>t. NamedTemporaryFile env hint data = Inr t)"
  shows "\<exists>d. read_exif_from_bytes env rt data hint = Inr d"
proof -
  from exiftool_json_returns[OF assms]
  obtain d where "exiftool_json_from_bytes env rt data hint = Inr d" by blast
  then show ?thesis
    using pil_exif_fallback_returns[of env rt data]
    by (auto simp: read_exif_from_bytes_def bindE_def)
qed

text \<open>The one exception that leaves the reader: that of the temporary file.\<close>

lemma read_exif_raises_tempfile_error:
  assumes "exiftool_path env = Some tool" and "NamedTemporaryFile env hint data = Inl e"
  shows "read_exif_from_bytes env rt data hint = Inl e"
  using assms by (simp add: read_exif_from_bytes_def exiftool_json_from_bytes_def bindE_def)

text \<open>
  C3 (where the code departs from it). With the tool located, an exception raised while
  the temporary file is created or written leaves \<^verbatim>\<open>read_exif_from_bytes\<close>: that step
  stands before the \<^verbatim>\<open>try\<close> statement of \<^verbatim>\<open>exiftool_json_from_bytes\<close>. Two runs: a format
  hint with a NUL character, which the standard library rejects with \<^verbatim>\<open>ValueError\<close>, and
  a temporary directory without space left.
\<close>

theorem read_exif_raises_on_tempfile_failure:
  "read_exif_from_bytes (sample_env (Some ''exiftool'') False (tool_exit 0 None)) rt_sample
      [2, 1, 7, 7] (''.jpg'' @ [CHR 0x00]) = Inl ValueError
   \<and> read_exif_from_bytes
        ((sample_env (Some ''exiftool'') False (tool_exit 0 None))
           \<lparr>NamedTemporaryFile := (\<lambda>suffix data. Inl (OSError ''No space left on device''))\<rparr>)
        rt_sample [2, 1, 7, 7] ''.jpg'' = Inl (OSError ''No space left on device'')"
  by (simp add: read_exif_from_bytes_def exiftool_json_from_bytes_def bindE_def exiftool_path_def
        sample_env_def sample_tempfile_def)


section \<open>Properties of the summary\<close>

lemma gv_absent: "\<forall>k \<in> set ks. map_of ex k = None \<Longrightarrow> gv rt ex ks = PNone"
  by (induction ks) auto

lemma summary_gps_some:
  "(summary_gps rt lat lon = Some (a, b)) = (py_float rt lat = Inr a \<and> py_float rt lon = Inr b)"
  by (cases "py_float rt lat"; cases "py_float rt lon"; cases lat; cases lon)
     (auto simp: summary_gps_def bindE_def)

lemma summary_gps_none:
  "(summary_gps rt lat lon = None) = ((\<exists>e. py_float rt lat = Inl e) \<or> (\<exists>e. py_float rt lon = Inl e))"
  by (cases "py_float rt lat"; cases "py_float rt lon"; cases lat; cases lon)
     (auto simp: summary_gps_def bindE_def)

lemma gps_summarize:
  "gps (summarize_exif rt ex) =
     summary_gps rt (gv rt ex [''GPSLatitude'', ''EXIF:GPSLatitude''])
                    (gv rt ex [''GPSLongitude'', ''EXIF:GPSLongitude''])"
  by (simp add: summarize_exif_def Let_def)

text \<open>
  C8 (as the code has it). The summary's GPS field is the pair of the two converted
  values exactly when \<^verbatim>\<open>float\<close> returns for the selected latitude and for the selected
  longitude; it is absent exactly when one of the two conversions raises, which is the
  case when a value is missing. So the field is a full pair or absent, never half of a
  pair. The conversion does not ask for finite numbers: an infinity or a NaN is a
  result like any other.
\<close>

theorem summarize_gps_both_or_neither:
  "((gps (summarize_exif rt ex) = Some (a, b)) =
      (py_float rt (gv rt ex [''GPSLatitude'', ''EXIF:GPSLatitude'']) = Inr a
       \<and> py_float rt (gv rt ex [''GPSLongitude'', ''EXIF:GPSLongitude'']) = Inr b))
   \<and> ((gps (summarize_exif rt ex) = None) =
      ((\<exists>e. py_float rt (gv rt ex [''GPSLatitude'', ''EXIF:GPSLatitude'']) = Inl e)
       \<or> (\<exists>e. py_float rt (gv rt ex [''GPSLongitude'', ''EXIF:GPSLongitude'']) = Inl e)))
   \<and> ((map_of ex ''GPSLatitude'' = None \<and> map_of ex ''EXIF:GPSLatitude'' = None)
       \<or> (map_of ex ''GPSLongitude'' = None \<and> map_of ex ''EXIF:GPSLongitude'' = None)
       \<longrightarrow> gps (summarize_exif rt ex) = None)"
proof -
  have miss: "gps (summarize_exif rt ex) = None"
    if "(map_of ex ''GPSLatitude'' = None \<and> map_of ex ''EXIF:GPSLatitude'' = None)
        \<or> (map_of ex ''GPSLongitude'' = None \<and> map_of ex ''EXIF:GPSLongitude'' = None)"
  proof -
    from that have "gv rt ex [''GPSLatitude'', ''EXIF:GPSLatitude''] = PNone
                    \<or> gv rt ex [''GPSLongitude'', ''EXIF:GPSLongitude''] = PNone"
      by (auto intro: gv_absent)
    then show ?thesis
      by (auto simp: gps_summarize summary_gps_none)
  qed
  show ?thesis
    using miss by (simp add: gps_summarize summary_gps_some summary_gps_none)
qed

theorem summarize_gps_both_or_neither_witness:
  "gps (summarize_exif rt_sample [(''GPSLatitude'', PFloat (Finite 40.5)), (''Make'', PStr ''ACME'')]) = None
   \<and> gps (summarize_exif rt_sample
            [(''GPSLatitude'', PFloat (Finite 40.5)), (''EXIF:GPSLongitude'', PInt (- 74))])
       = Some (Finite 40.5, Finite (- 74))"
proof -
  let ?e1 = "[(''GPSLatitude'', PFloat (Finite 40.5)), (''Make'', PStr ''ACME'')]"
  let ?e2 = "[(''GPSLatitude'', PFloat (Finite 40.5)), (''EXIF:GPSLongitude'', PInt (- 74))]"
  have nb: "py_strip ''<float>'' \<noteq> []" "py_strip ''<value>'' \<noteq> []"
    by (simp_all add: py_strip_def py_isspace_def)
  have 1: "gps (summarize_exif rt_sample ?e1) = None"
    using summarize_gps_both_or_neither[of rt_sample ?e1 "Finite 0" "Finite 0"] by simp
  have "py_float rt_sample (gv rt_sample ?e2 [''GPSLatitude'', ''EXIF:GPSLatitude'']) = Inr (Finite 40.5)"
       "py_float rt_sample (gv rt_sample ?e2 [''GPSLongitude'', ''EXIF:GPSLongitude'']) = Inr (Finite (- 74))"
    by (simp_all add: rt_sample_def py_str_def nb)
  with summarize_gps_both_or_neither[of rt_sample ?e2 "Finite 40.5" "Finite (- 74)"]
  have 2: "gps (summarize_exif rt_sample ?e2) = Some (Finite 40.5, Finite (- 74))"
    by blast
  from 1 2 show ?thesis by simp
qed

text \<open>
  The claim as stated fails: two NaN coordinates (what the fallback reader delivers for
  rationals with denominator zero) are reported as a GPS pair, and so are the strings
  \<^verbatim>\<open>inf\<close> and \<^verbatim>\<open>nan\<close>, which \<^verbatim>\<open>float\<close> accepts.
\<close>

theorem summarize_gps_not_finite:
  "gps (summarize_exif rt_sample [(''GPSLatitude'', PFloat NaN), (''GPSLongitude'', PFloat NaN)])
     = Some (NaN, NaN)
   \<and> gps (summarize_exif rt_sample [(''GPSLatitude'', PStr ''inf''), (''GPSLongitude'', PStr ''nan'')])
     = Some (PosInf, NaN)
   \<and> \<not> is_finite NaN \<and> \<not> is_finite PosInf"
  by (simp add: summarize_exif_def Let_def summary_gps_def bindE_def rt_sample_def py_str_def
        py_strip_def py_isspace_def is_finite_def)


section \<open>Properties of the fallback reader's GPS conversion\<close>

lemma map_of_dict_set: "map_of (dict_set k v d) = (map_of d)(k \<mapsto> v)"
  by (induction d) (auto simp: fun_eq_iff)

lemma dict_get_dict_set: "dict_get (dict_set k v d) k' = (if k' = k then v else dict_get d k')"
  by (simp add: dict_get_def map_of_dict_set)

lemma rounds_to_nearestD:
  "rounds_to_nearest rt \<Longrightarrow> \<bar>x\<bar> \<le> 64 \<Longrightarrow> \<exists>y. fround rt x = Finite y \<and> \<bar>y - x\<bar> \<le> 1 / 2 ^ 48"
  by (simp add: rounds_to_nearest_def)

lemma as_float_component:
  assumes rnd: "rounds_to_nearest rt"
    and rep: "r = PInt \<or> r = (\<lambda>n. PRational n 1) \<or> r = (\<lambda>n. PTuple [PInt n, PInt 1])"
    and n: "\<bar>n\<bar> \<le> 64"
  shows "\<exists>y. as_float rt (r n) = Inr (Finite y) \<and> \<bar>y - of_int n\<bar> \<le> 1 / 2 ^ 48"
proof -
  have "\<bar>(of_int n :: real)\<bar> \<le> 64" using n by linarith
  from rounds_to_nearestD[OF rnd this]
  obtain y where y: "fround rt (of_int n) = Finite y" "\<bar>y - of_int n\<bar> \<le> 1 / 2 ^ 48" by blast
  have small: "\<bar>n\<bar> \<le> 2 ^ 53" using n by simp
  from rep consider "r = PInt" | "r = (\<lambda>n. PRational n 1)" | "r = (\<lambda>n. PTuple [PInt n, PInt 1])"
    by blast
  then show ?thesis
  proof cases
    case 1
    with small show ?thesis by (simp add: as_float_def)
  next
    case 2
    with y show ?thesis by (simp add: as_float_def finite_or_overflow_def)
  next
    case 3
    with y small show ?thesis by (simp add: as_float_def bindE_def)
  qed
qed

lemma to_deg_approx:
  assumes rnd: "rounds_to_nearest rt"
    and d: "as_float rt d = Inr (Finite fd)" "\<bar>fd - 40\<bar> \<le> 1 / 2 ^ 48"
    and m: "as_float rt m = Inr (Finite fm)" "\<bar>fm - 26\<bar> \<le> 1 / 2 ^ 48"
    and s: "as_float rt s = Inr (Finite fs)" "\<bar>fs - 46\<bar> \<le> 1 / 2 ^ 48"
  shows "\<exists>x. to_deg rt (PTuple [d, m, s]) = Some (Finite x) \<and> \<bar>x - 40.446111\<bar> < 1 / 10 ^ 6"
proof -
  have e: "(1::real) / 2 ^ 48 = 1 / 281474976710656" by simp
  note r = rounds_to_nearestD[OF rnd]
  note d2 = d(2)[unfolded e] and m2 = m(2)[unfolded e] and s2 = s(2)[unfolded e]
  have "\<bar>fm / 60\<bar> \<le> 64" using m2 by linarith
  from r[OF this] obtain qm
    where qm: "fround rt (fm / 60) = Finite qm" "\<bar>qm - fm / 60\<bar> \<le> 1 / 2 ^ 48" by blast
  have "\<bar>fs / 3600\<bar> \<le> 64" using s2 by linarith
  from r[OF this] obtain qs
    where qs: "fround rt (fs / 3600) = Finite qs" "\<bar>qs - fs / 3600\<bar> \<le> 1 / 2 ^ 48" by blast
  note qm2 = qm(2)[unfolded e] and qs2 = qs(2)[unfolded e]
  have "\<bar>fd + qm\<bar> \<le> 64" using d2 qm2 m2 by linarith
  from r[OF this] obtain s1
    where s1: "fround rt (fd + qm) = Finite s1" "\<bar>s1 - (fd + qm)\<bar> \<le> 1 / 2 ^ 48" by blast
  note s12 = s1(2)[unfolded e]
  have "\<bar>s1 + qs\<bar> \<le> 64" using d2 qm2 m2 s12 qs2 s2 by linarith
  from r[OF this] obtain x
    where x: "fround rt (s1 + qs) = Finite x" "\<bar>x - (s1 + qs)\<bar> \<le> 1 / 2 ^ 48" by blast
  note x2 = x(2)[unfolded e]
  have val: "to_deg rt (PTuple [d, m, s]) = Some (Finite x)"
    using d(1) m(1) s(1) qm(1) qs(1) s1(1) x(1)
    by (simp add: to_deg_def to_deg_try_def unpack3_def bindE_def)
  have "\<bar>x - 40446111 / 1000000\<bar> < 1 / 1000000"
    using d2 m2 s2 qm2 qs2 s12 x2 by linarith
  then have "\<bar>x - 40.446111\<bar> < 1 / 10 ^ 6" by simp
  with val show ?thesis by blast
qed

lemma gps_to_decimal_result:
  assumes "to_deg rt (dict_get tagmap ''GPSLatitude'') = Some lat"
    and "to_deg rt (dict_get tagmap ''GPSLongitude'') = Some lon"
    and "dict_get tagmap ''GPSLatitudeRef'' = PStr ns"
    and "dict_get tagmap ''GPSLongitudeRef'' = PStr ew"
  shows "\<exists>t. gps_to_decimal rt tagmap = Inr t
          \<and> dict_get t ''GPSLatitude'' = PFloat (if py_upper (str_or ns ''N'') = ''S'' then fneg lat else lat)
          \<and> dict_get t ''GPSLongitude'' = PFloat (if py_upper (str_or ew ''E'') = ''W'' then fneg lon else lon)"
  using assms
  by (simp add: gps_to_decimal_def ref_is_def bindE_def Let_def dict_get_dict_set str_or_def)

text \<open>
  What the fallback reader makes of a GPS block whose rationals have denominator zero:
  both coordinates are NaN.
\<close>

lemma to_deg_zero_rationals:
  "to_deg rt (PTuple [PRational 0 0, PRational 0 0, PRational 0 0]) = Some NaN"
  by (simp add: to_deg_def to_deg_try_def unpack3_def bindE_def as_float_def)

text \<open>
  A whole run of the fallback reader under exact rounding: an EXIF block with a maker
  entry and a GPS sub-block for 40\<degree> 26' 46" south, 79\<degree> 58' 56" west.
\<close>

lemma fallback_reader_example:
  "pil_exif_fallback
     ((sample_env None False (tool_exit 0 None))
        \<lparr>getexif := (\<lambda>im. Inr (PIfd [(271, PStr ''ACME''),
                                        (34853, PIfd [(1, PStr ''S''),
                                                      (2, PTuple [PRational 40 1, PRational 26 1, PRational 46 1]),
                                                      (3, PStr ''W''),
                                                      (4, PTuple [PRational 79 1, PRational 58 1, PRational 56 1])])]))\<rparr>)
     rt_sample [2, 1, 7, 7]
   = Inr (PDict [(''Make'', PStr ''ACME''),
                 (''GPSInfo'', PIfd [(1, PStr ''S''),
                                     (2, PTuple [PRational 40 1, PRational 26 1, PRational 46 1]),
                                     (3, PStr ''W''),
                                     (4, PTuple [PRational 79 1, PRational 58 1, PRational 56 1])]),
                 (''GPSLatitudeRef'', PStr ''S''),
                 (''GPSLongitudeRef'', PStr ''W''),
                 (''GPSLatitude'', PFloat (Finite (- (40 + 26 / 60 + 46 / 3600)))),
                 (''GPSLongitude'', PFloat (Finite (- (79 + 58 / 60 + 56 / 3600))))])"
  by (simp add: pil_exif_fallback_def pil_exif_fallback_try_def bindE_def sample_env_def sample_open_def
        named_items_def tag_name_def merge_gps_def dict_get_def is_dict_def Let_def
        gps_to_decimal_def to_deg_def to_deg_try_def unpack3_def as_float_def finite_or_overflow_def
        ref_is_def py_upper_def py_upper_char_def rt_sample_def py_str_def)

text \<open>
  C9. Let the top-level GPS entries hold the latitude triple (40, 26, 46), given as
  integers, as rationals over 1 or as numerator/denominator pairs, a longitude that
  converts, and the two hemisphere letters. Then the triple converts to a finite number
  within \<open>10 ^ - 6\<close> of 40.446111, and the reader stores that number as the latitude,
  negated exactly when the latitude reference is \<^verbatim>\<open>S\<close> (in either case of the letter);
  the longitude is negated exactly when its reference is \<^verbatim>\<open>W\<close>. Floating point enters
  through \<open>rounds_to_nearest\<close> only.
\<close>

theorem gps_decimal_conversion:
  assumes rnd: "rounds_to_nearest rt"
    and rep: "r = PInt \<or> r = (\<lambda>n. PRational n 1) \<or> r = (\<lambda>n. PTuple [PInt n, PInt 1])"
    and lat: "dict_get tagmap ''GPSLatitude'' = PTuple [r 40, r 26, r 46]"
    and lon: "to_deg rt (dict_get tagmap ''GPSLongitude'') = Some lon"
    and latref: "dict_get tagmap ''GPSLatitudeRef'' = PStr ns"
    and lonref: "dict_get tagmap ''GPSLongitudeRef'' = PStr ew"
  shows "\<exists>x t. to_deg rt (PTuple [r 40, r 26, r 46]) = Some (Finite x)
          \<and> \<bar>x - 40.446111\<bar> < 1 / 10 ^ 6
          \<and> gps_to_decimal rt tagmap = Inr t
          \<and> dict_get t ''GPSLatitude''
              = PFloat (Finite (if py_upper (str_or ns ''N'') = ''S'' then - x else x))
          \<and> dict_get t ''GPSLongitude''
              = PFloat (if py_upper (str_or ew ''E'') = ''W'' then fneg lon else lon)"
proof -
  from as_float_component[OF rnd rep, of 40]
  obtain fd where d: "as_float rt (r 40) = Inr (Finite fd)" "\<bar>fd - 40\<bar> \<le> 1 / 2 ^ 48" by auto
  from as_float_component[OF rnd rep, of 26]
  obtain fm where m: "as_float rt (r 26) = Inr (Finite fm)" "\<bar>fm - 26\<bar> \<le> 1 / 2 ^ 48" by auto
  from as_float_component[OF rnd rep, of 46]
  obtain fs where s: "as_float rt (r 46) = Inr (Finite fs)" "\<bar>fs - 46\<bar> \<le> 1 / 2 ^ 48" by auto
  from to_deg_approx[OF rnd d m s]
  obtain x where x: "to_deg rt (PTuple [r 40, r 26, r 46]) = Some (Finite x)"
      "\<bar>x - 40.446111\<bar> < 1 / 10 ^ 6" by blast
  from x(1) lat have "to_deg rt (dict_get tagmap ''GPSLatitude'') = Some (Finite x)" by simp
  from gps_to_decimal_result[OF this lon latref lonref]
  obtain t where t: "gps_to_decimal rt tagmap = Inr t"
      "dict_get t ''GPSLatitude'' = PFloat (if py_upper (str_or ns ''N'') = ''S'' then fneg (Finite x) else Finite x)"
      "dict_get t ''GPSLongitude'' = PFloat (if py_upper (str_or ew ''E'') = ''W'' then fneg lon else lon)"
    by blast
  from t(2) have "dict_get t ''GPSLatitude''
              = PFloat (Finite (if py_upper (str_or ns ''N'') = ''S'' then - x else x))"
    by simp
  with x t(1) t(3) show ?thesis by blast
qed

theorem gps_decimal_conversion_witness:
  "rounds_to_nearest rt_sample
   \<and> (\<exists>x t. to_deg rt_sample (PTuple [PInt 40, PInt 26, PInt 46]) = Some (Finite x)
          \<and> \<bar>x - 40.446111\<bar> < 1 / 10 ^ 6
          \<and> gps_to_decimal rt_sample
               [(''GPSLatitudeRef'', PStr ''s''), (''GPSLongitudeRef'', PStr ''E''),
                (''GPSLatitude'', PTuple [PInt 40, PInt 26, PInt 46]),
                (''GPSLongitude'', PTuple [PInt 79, PInt 58, PInt 56])] = Inr t
          \<and> dict_get t ''GPSLatitude'' = PFloat (Finite (- x))
          \<and> dict_get t ''GPSLongitude'' = PFloat (Finite (79 + 58 / 60 + 56 / 3600)))"
proof -
  let ?tm = "[(''GPSLatitudeRef'', PStr ''s''), (''GPSLongitudeRef'', PStr ''E''),
              (''GPSLatitude'', PTuple [PInt 40, PInt 26, PInt 46]),
              (''GPSLongitude'', PTuple [PInt 79, PInt 58, PInt 56])]"
  have rnd: "rounds_to_nearest rt_sample"
    by (simp add: rounds_to_nearest_def rt_sample_def)
  have lon: "to_deg rt_sample (dict_get ?tm ''GPSLongitude'') = Some (Finite (79 + 58 / 60 + 56 / 3600))"
    by (simp add: dict_get_def to_deg_def to_deg_try_def unpack3_def bindE_def as_float_def rt_sample_def)
  have up: "py_upper (str_or ''s'' ''N'') = ''S''" "py_upper (str_or ''E'' ''E'') \<noteq> ''W''"
    by (simp_all add: py_upper_def py_upper_char_def str_or_def)
  from gps_decimal_conversion[of rt_sample PInt ?tm "Finite (79 + 58 / 60 + 56 / 3600)" "''s''" "''E''",
        OF rnd _ _ lon]
  show ?thesis using rnd up by (simp add: dict_get_def)
qed


section \<open>Properties of the SAFE action\<close>

lemma image_state_report: "image_state (report title e st) = image_state st"
  by (simp add: image_state_def report_def)

lemma image_state_session: "image_state (st\<lparr>rembg_session := s\<rparr>) = image_state st"
  by (simp add: image_state_def)

lemma background_stage_state:
  "snd (background_stage env st data ext) = st
   \<or> (\<exists>s. snd (background_stage env st data ext) = st\<lparr>rembg_session := Some s\<rparr>)"
  by (auto simp: background_stage_def split: option.splits sum.splits)

lemma full_stages_state:
  "snd (full_stages env p st cur) = st
   \<or> (\<exists>s. snd (full_stages env p st cur) = st\<lparr>rembg_session := Some s\<rparr>)"
proof -
  have "snd (full_stages env p st cur) = snd (background_stage env st cur (current_ext st))"
    by (simp add: full_stages_def split: prod.splits sum.splits)
  then show ?thesis using background_stage_state[of env st cur "current_ext st"] by simp
qed

lemma image_state_full_stages: "image_state (snd (full_stages env p st cur)) = image_state st"
  using full_stages_state[of env p st cur] by (auto simp: image_state_session)

lemma set_from_bytes_undecodable:
  assumes "Image_open env data = Inl e"
  shows "image_state (finish title (set_from_bytes env rt data hint msg st))
           = (Some data, None, PDict [], current_ext st)"
  using assms by (simp add: set_from_bytes_def finish_def image_state_def Let_def)

lemma action_safe_strip_only:
  assumes "current_bytes st = Some cur" "cur \<noteq> []" "var_striponly st"
  shows "action_safe env p rt st =
     (case exiftool_path env of
        None \<Rightarrow> st\<lparr>dialogs := dialogs st @
                   [ShowWarning ''ExifTool required'' ''Strip-only SAFE needs ExifTool.'']\<rparr>
      | Some tool \<Rightarrow>
          (case exiftool_write_from_bytes env cur safe_args (current_ext st) of
             Inl e \<Rightarrow> report ''SAFE (strip-only)'' e st
           | Inr data \<Rightarrow>
               finish ''SAFE (strip-only)''
                 (set_from_bytes env rt data (Some (current_ext st))
                    (Some ''SAFE (strip-only) created and set as current.'') st)))"
  using assms by (simp add: action_safe_def)

lemma action_safe_full:
  assumes "current_bytes st = Some cur" "cur \<noteq> []" "\<not> var_striponly st"
  shows "action_safe env p rt st =
     (case full_stages env p st cur of
        (Inl e, st') \<Rightarrow> report ''SAFE (full)'' e st'
      | (Inr png, st') \<Rightarrow>
          finish ''SAFE (full)''
            (set_from_bytes env rt png (Some ''.png'')
               (Some ''SAFE copy created (full) and set as current.'') st'))"
  using assms by (simp add: action_safe_def)

lemma safe_stage_raises_strip_only:
  assumes "current_bytes st = Some cur" "cur \<noteq> []" "var_striponly st"
    and "exiftool_write_from_bytes env cur safe_args (current_ext st) = Inl e"
  shows "image_state (action_safe env p rt st) = image_state st"
proof (cases "exiftool_path env")
  case None
  with assms(1-3) show ?thesis by (simp add: action_safe_strip_only image_state_def)
next
  case (Some tool)
  with assms show ?thesis by (simp add: action_safe_strip_only image_state_report)
qed

lemma safe_stage_raises_full:
  assumes "current_bytes st = Some cur" "cur \<noteq> []" "\<not> var_striponly st"
    and "fst (full_stages env p st cur) = Inl e"
  shows "image_state (action_safe env p rt st) = image_state st"
proof -
  obtain r st' where f: "full_stages env p st cur = (r, st')" by (cases "full_stages env p st cur")
  with assms(4) have r: "r = Inl e" by simp
  from f have "image_state st' = image_state st"
    using image_state_full_stages[of env p st cur] by simp
  with f r assms(1-3) show ?thesis
    by (simp add: action_safe_full image_state_report)
qed

lemma safe_undecodable_strip_only:
  assumes "current_bytes st = Some cur" "cur \<noteq> []" "var_striponly st"
    and "exiftool_path env = Some tool"
    and "exiftool_write_from_bytes env cur safe_args (current_ext st) = Inr data"
    and "Image_open env data = Inl e"
  shows "image_state (action_safe env p rt st) = (Some data, None, PDict [], current_ext st)"
  using assms by (simp add: action_safe_strip_only set_from_bytes_undecodable)

lemma safe_undecodable_full:
  assumes "current_bytes st = Some cur" "cur \<noteq> []" "\<not> var_striponly st"
    and "fst (full_stages env p st cur) = Inr data"
    and "Image_open env data = Inl e"
  shows "image_state (action_safe env p rt st) = (Some data, None, PDict [], current_ext st)"
proof -
  obtain r st' where f: "full_stages env p st cur = (r, st')" by (cases "full_stages env p st cur")
  with assms(4) have r: "r = Inr data" by simp
  from f have "image_state st' = image_state st"
    using image_state_full_stages[of env p st cur] by simp
  then have "current_ext st' = current_ext st" by (simp add: image_state_def)
  with f r assms(1-3,5) show ?thesis
    by (simp add: action_safe_full set_from_bytes_undecodable)
qed

text \<open>
  C1 (as the code has it). A SAFE run in which a stage raises leaves the image state
  (current bytes, decoded image, metadata, format hint) as it was; so does a run without
  current bytes or, in strip-only mode, without the tool. A run whose stages return
  bytes that do not decode does change the state: the returned bytes become the current
  bytes, the decoded image is cleared, the metadata becomes the empty mapping and the
  format hint stays.
\<close>

theorem safe_failure_image_state:
  "((current_bytes st = None \<or> current_bytes st = Some []) \<longrightarrow> action_safe env p rt st = st)
   \<and> (\<forall>cur e. current_bytes st = Some cur \<and> cur \<noteq> [] \<and> var_striponly st
          \<and> exiftool_write_from_bytes env cur safe_args (current_ext st) = Inl e
        \<longrightarrow> image_state (action_safe env p rt st) = image_state st)
   \<and> (\<forall>cur e. current_bytes st = Some cur \<and> cur \<noteq> [] \<and> \<not> var_striponly st
          \<and> fst (full_stages env p st cur) = Inl e
        \<longrightarrow> image_state (action_safe env p rt st) = image_state st)
   \<and> (\<forall>cur tool data e. current_bytes st = Some cur \<and> cur \<noteq> [] \<and> var_striponly st
          \<and> exiftool_path env = Some tool
          \<and> exiftool_write_from_bytes env cur safe_args (current_ext st) = Inr data
          \<and> Image_open env data = Inl e
        \<longrightarrow> image_state (action_safe env p rt st) = (Some data, None, PDict [], current_ext st))
   \<and> (\<forall>cur data e. current_bytes st = Some cur \<and> cur \<noteq> [] \<and> \<not> var_striponly st
          \<and> fst (full_stages env p st cur) = Inr data
          \<and> Image_open env data = Inl e
        \<longrightarrow> image_state (action_safe env p rt st) = (Some data, None, PDict [], current_ext st))"
proof -
  have a: "(current_bytes st = None \<or> current_bytes st = Some []) \<longrightarrow> action_safe env p rt st = st"
    by (auto simp: action_safe_def)
  show ?thesis
    using a safe_stage_raises_strip_only[of st _ env _ p rt] safe_stage_raises_full[of st _ env p _ rt]
      safe_undecodable_strip_only[of st _ env _ _ _ p rt] safe_undecodable_full[of st _ env p _ _ rt]
    by blast
qed

lemma sample_write:
  "exiftool_write_from_bytes (sample_env (Some ''exiftool'') bg (tool_exit rc out)) data args ext =
     (if CHR 0x00 \<in> set ext then Inl ValueError
      else if rc \<noteq> 0 \<and> rc \<noteq> 1 then
        (case out of
           Some b \<Rightarrow> Inr b
         | None \<Rightarrow> Inl (RuntimeError_exit rc
                          ([''exiftool'', ''-m'', ''-o'', ''/tmp/tmpk3v9'' @ ext @ ''.out''] @ args
                             @ [''/tmp/tmpk3v9'' @ ext])
                          ''Error: bad file''))
      else (case out of Some b \<Rightarrow> Inr b | None \<Rightarrow> Inr data))"
  by (cases out)
     (simp_all add: exiftool_write_from_bytes_def exiftool_path_def sample_env_def
        sample_tempfile_def tool_exit_def bindE_def Let_def str_or_def py_strip_def py_isspace_def)

lemma sample_path: "exiftool_path (sample_env (Some ''exiftool'') bg run) = Some ''exiftool''"
  by (simp add: exiftool_path_def sample_env_def)

lemma sample_open_env: "Image_open (sample_env tool bg run) = sample_open"
  by (simp add: sample_env_def)

lemma sample_app_fields:
  "current_bytes (sample_app so) = Some [2, 1, 7, 7]"
  "current_ext (sample_app so) = ''.jpg''"
  "var_striponly (sample_app so) = so"
  "rembg_session (sample_app so) = None"
  by (simp_all add: sample_app_def)

theorem safe_failure_image_state_witness:
  "image_state (action_safe (sample_env (Some ''exiftool'') False (tool_exit 2 None)) sample_pil rt_sample
                  (sample_app True)) = image_state (sample_app True)
   \<and> image_state (action_safe (sample_env (Some ''exiftool'') False (tool_exit 0 (Some [2]))) sample_pil
                    rt_sample (sample_app False)) = image_state (sample_app False)
   \<and> image_state (action_safe (sample_env (Some ''exiftool'') False (tool_exit 2 (Some [2]))) sample_pil
                    rt_sample (sample_app True)) = (Some [2], None, PDict [], ''.jpg'')"
proof -
  let ?E1 = "sample_env (Some ''exiftool'') False (tool_exit 2 None)"
  let ?E2 = "sample_env (Some ''exiftool'') False (tool_exit 0 (Some [2]))"
  let ?E3 = "sample_env (Some ''exiftool'') False (tool_exit 2 (Some [2]))"
  have w1: "exiftool_write_from_bytes ?E1 [2, 1, 7, 7] safe_args ''.jpg''
            = Inl (RuntimeError_exit 2
                 ([''exiftool'', ''-m'', ''-o'', ''/tmp/tmpk3v9'' @ ''.jpg'' @ ''.out''] @ safe_args
                    @ [''/tmp/tmpk3v9'' @ ''.jpg'']) ''Error: bad file'')"
    by (simp add: sample_write)
  have f2: "fst (full_stages ?E2 sample_pil (sample_app False) [2, 1, 7, 7])
            = Inl (LibraryError ''cannot identify image file'')"
    by (simp add: full_stages_def background_stage_def strip_stage_def sample_path sample_write
          sample_app_fields watermark_stage_def sample_open_env sample_open_def bindE_def)
      (simp add: sample_env_def)
  have w3: "exiftool_write_from_bytes ?E3 [2, 1, 7, 7] safe_args ''.jpg'' = Inr [2]"
    by (simp add: sample_write)
  have o3: "Image_open ?E3 [2] = Inl (LibraryError ''cannot identify image file'')"
    by (simp add: sample_open_env sample_open_def)
  note T1 = safe_failure_image_state[of "sample_app True" ?E1 sample_pil rt_sample]
  note T2 = safe_failure_image_state[of "sample_app False" ?E2 sample_pil rt_sample]
  note T3 = safe_failure_image_state[of "sample_app True" ?E3 sample_pil rt_sample]
  have 1: "image_state (action_safe ?E1 sample_pil rt_sample (sample_app True)) = image_state (sample_app True)"
    using T1 w1 by (simp add: sample_app_fields)
  have 2: "image_state (action_safe ?E2 sample_pil rt_sample (sample_app False)) = image_state (sample_app False)"
    using T2 f2 by (simp add: sample_app_fields)
  have 3: "image_state (action_safe ?E3 sample_pil rt_sample (sample_app True)) = (Some [2], None, PDict [], ''.jpg'')"
    using T3 w3 o3 sample_path[of False "tool_exit 2 (Some [2])"] by (simp add: sample_app_fields)
  from 1 2 3 show ?thesis by simp
qed

text \<open>
  The claim as stated fails: the tool ends with status 2 and leaves a truncated output
  file; the writer salvages it, the bytes do not decode, and they are the current bytes
  afterwards, with image and metadata gone.
\<close>

theorem safe_undecodable_result_replaces_state:
  "exiftool_write_from_bytes (sample_env (Some ''exiftool'') False (tool_exit 2 (Some [2])))
       [2, 1, 7, 7] safe_args ''.jpg'' = Inr [2]
   \<and> Image_open (sample_env (Some ''exiftool'') False (tool_exit 2 (Some [2]))) [2]
       = Inl (LibraryError ''cannot identify image file'')
   \<and> image_state (sample_app True)
       = (Some [2, 1, 7, 7], Some \<lparr>mode = ''RGB'', width = 2, height = 1, pixels = [7, 7]\<rparr>,
          PDict [(''Make'', PStr ''ACME'')], ''.jpg'')
   \<and> image_state (action_safe (sample_env (Some ''exiftool'') False (tool_exit 2 (Some [2]))) sample_pil
                    rt_sample (sample_app True))
       = (Some [2], None, PDict [], ''.jpg'')
   \<and> image_state (action_safe (sample_env (Some ''exiftool'') False (tool_exit 2 (Some [2]))) sample_pil
                    rt_sample (sample_app True))
       \<noteq> image_state (sample_app True)"
proof -
  let ?E = "sample_env (Some ''exiftool'') False (tool_exit 2 (Some [2]))"
  have w: "exiftool_write_from_bytes ?E [2, 1, 7, 7] safe_args ''.jpg'' = Inr [2]"
    by (simp add: sample_write)
  have o: "Image_open ?E [2] = Inl (LibraryError ''cannot identify image file'')"
    by (simp add: sample_open_env sample_open_def)
  have b: "image_state (sample_app True)
       = (Some [2, 1, 7, 7], Some \<lparr>mode = ''RGB'', width = 2, height = 1, pixels = [7, 7]\<rparr>,
          PDict [(''Make'', PStr ''ACME'')], ''.jpg'')"
    by (simp add: image_state_def sample_app_def)
  have a: "image_state (action_safe ?E sample_pil rt_sample (sample_app True))
       = (Some [2], None, PDict [], ''.jpg'')"
    using w o
    by (simp add: action_safe_def sample_app_fields sample_path set_from_bytes_def Let_def
          finish_def image_state_def)
  from w o a b show ?thesis by simp
qed

lemma safe_args_all: "safe_args = GPS_ARGS @ DEVICE_ARGS @ DATETIME_ARGS"
  by (simp add: safe_args_def build_strip_args_def)

lemma session_update_same: "rembg_session st = Some s \<Longrightarrow> st\<lparr>rembg_session := Some s\<rparr> = st"
  by (cases st) simp

lemma background_stage_runs:
  assumes "REMBG_OK env"
    and "(case rembg_session st of Some s' \<Rightarrow> Inr s' | None \<Rightarrow> rembg_new_session env ''u2net'') = Inr s"
    and "rembg_remove env data s = Inr removed"
  shows "background_stage env st data ext = (Inr (removed, ''.png''), st\<lparr>rembg_session := Some s\<rparr>)"
  using assms
  by (cases "rembg_session st") (simp_all add: background_stage_def session_update_same)

lemma set_from_bytes_bytes:
  "current_bytes (finish title (set_from_bytes env rt data hint msg st)) = Some data"
  by (simp add: set_from_bytes_def finish_def report_def Let_def split: sum.splits option.splits)

lemma set_from_bytes_decoded:
  assumes "Image_open env data = Inr im"
  shows "current_image (finish title (set_from_bytes env rt data (Some ''.png'') msg st)) = Some im
         \<and> current_ext (finish title (set_from_bytes env rt data (Some ''.png'') msg st)) = ''.png''"
  using assms
  by (simp add: set_from_bytes_def finish_def report_def Let_def str_or_def
        split: sum.splits option.splits)

text \<open>
  C7. A full SAFE run whose stages all return. Background removal comes first and only
  with the remover: it works on the current bytes and switches the hint to \<^verbatim>\<open>.png\<close>. The
  metadata strip comes second and only with the tool: it is the writer, applied to the
  bytes and the hint of the first stage with the directives of all three categories.
  The watermark comes last in every case: the bytes of the second stage are decoded,
  marked \<^verbatim>\<open>SAFE\<close> at opacity 160 (an RGBA image of the same size) and encoded as PNG.
  These PNG bytes become the current bytes under the hint \<^verbatim>\<open>.png\<close>.
\<close>

theorem full_pipeline_order:
  assumes cur: "current_bytes st = Some cur" "cur \<noteq> []"
    and full: "\<not> var_striponly st"
    and sess: "REMBG_OK env \<Longrightarrow>
                 (case rembg_session st of Some s' \<Rightarrow> Inr s' | None \<Rightarrow> rembg_new_session env ''u2net'') = Inr s"
    and bg: "REMBG_OK env \<Longrightarrow> rembg_remove env cur s = Inr removed"
    and d1: "d1 = (if REMBG_OK env then removed else cur)"
    and e1: "ext1 = (if REMBG_OK env then ''.png'' else current_ext st)"
    and strip: "exiftool_path env \<noteq> None \<Longrightarrow>
                  exiftool_write_from_bytes env d1 (GPS_ARGS @ DEVICE_ARGS @ DATETIME_ARGS) ext1 = Inr stripped"
    and d2: "d2 = (if exiftool_path env \<noteq> None then stripped else d1)"
    and opened: "Image_open env d2 = Inr img"
    and png: "save_png env marked = Inr png"
    and marked: "add_watermark p img ''SAFE'' 160 = Inr marked"
  shows "action_safe env p rt st =
           finish ''SAFE (full)''
             (set_from_bytes env rt png (Some ''.png'')
                (Some ''SAFE copy created (full) and set as current.'')
                (if REMBG_OK env then st\<lparr>rembg_session := Some s\<rparr> else st))
         \<and> current_bytes (action_safe env p rt st) = Some png
         \<and> (\<forall>im. Image_open env png = Inr im \<longrightarrow>
               current_image (action_safe env p rt st) = Some im
               \<and> current_ext (action_safe env p rt st) = ''.png'')
         \<and> mode marked = ''RGBA'' \<and> width marked = width img \<and> height marked = height img"
proof -
  let ?st' = "if REMBG_OK env then st\<lparr>rembg_session := Some s\<rparr> else st"
  have b: "background_stage env st cur (current_ext st) = (Inr (d1, ext1), ?st')"
  proof (cases "REMBG_OK env")
    case True
    with background_stage_runs[OF True sess[OF True] bg[OF True]] d1 e1 show ?thesis by simp
  next
    case False
    with d1 e1 show ?thesis by (simp add: background_stage_def)
  qed
  have s: "strip_stage env d1 ext1 = Inr d2"
  proof (cases "exiftool_path env")
    case None
    with d2 show ?thesis by (simp add: strip_stage_def)
  next
    case (Some tool)
    with strip d2 show ?thesis by (simp add: strip_stage_def safe_args_all)
  qed
  have w: "watermark_stage env p d2 = Inr png"
    using opened marked png by (simp add: watermark_stage_def bindE_def)
  have f: "full_stages env p st cur = (Inr png, ?st')"
    using b s w by (simp add: full_stages_def bindE_def)
  have a: "action_safe env p rt st =
           finish ''SAFE (full)''
             (set_from_bytes env rt png (Some ''.png'')
                (Some ''SAFE copy created (full) and set as current.'') ?st')"
    using cur full f by (simp add: action_safe_def)
  have m: "mode marked = ''RGBA'' \<and> width marked = width img \<and> height marked = height img"
    using marked
    by (auto simp: add_watermark_def Let_def alpha_composite_def Image_convert_def Image_new_def
          draw_text_def)
  show ?thesis
    using a m set_from_bytes_bytes[of "''SAFE (full)''" env rt png]
      set_from_bytes_decoded[of env png _ "''SAFE (full)''" rt]
    by simp
qed

theorem full_pipeline_order_witness:
  "current_bytes (action_safe (sample_env (Some ''exiftool'') True (tool_exit 0 (Some [3, 1, 9, 9, 9])))
                    sample_pil rt_sample (sample_app False)) = Some [3, 1, 9, 9, 9]
   \<and> current_image (action_safe (sample_env (Some ''exiftool'') True (tool_exit 0 (Some [3, 1, 9, 9, 9])))
                    sample_pil rt_sample (sample_app False))
       = Some \<lparr>mode = ''RGB'', width = 3, height = 1, pixels = [9, 9, 9]\<rparr>
   \<and> current_ext (action_safe (sample_env (Some ''exiftool'') True (tool_exit 0 (Some [3, 1, 9, 9, 9])))
                    sample_pil rt_sample (sample_app False)) = ''.png''
   \<and> rembg_remove (sample_env (Some ''exiftool'') True (tool_exit 0 (Some [3, 1, 9, 9, 9]))) [2, 1, 7, 7] 1
       = Inr [2, 1, 7, 7, 1]
   \<and> exiftool_write_from_bytes (sample_env (Some ''exiftool'') True (tool_exit 0 (Some [3, 1, 9, 9, 9])))
        [2, 1, 7, 7, 1] (GPS_ARGS @ DEVICE_ARGS @ DATETIME_ARGS) ''.png'' = Inr [3, 1, 9, 9, 9]"
proof -
  let ?E = "sample_env (Some ''exiftool'') True (tool_exit 0 (Some [3, 1, 9, 9, 9]))"
  let ?img = "\<lparr>mode = ''RGB'', width = 3, height = 1, pixels = [9, 9, 9]\<rparr>"
  let ?marked = "\<lparr>mode = ''RGBA'', width = 3, height = 1, pixels = [9, 9, 9]\<rparr>"
  have ok: "REMBG_OK ?E" by (simp add: sample_env_def)
  have sess: "(case rembg_session (sample_app False) of Some s' \<Rightarrow> Inr s'
               | None \<Rightarrow> rembg_new_session ?E ''u2net'') = Inr 1"
    by (simp add: sample_app_fields sample_env_def)
  have bg: "rembg_remove ?E [2, 1, 7, 7] 1 = Inr [2, 1, 7, 7, 1]"
    by (simp add: sample_env_def)
  have strip: "exiftool_write_from_bytes ?E [2, 1, 7, 7, 1] (GPS_ARGS @ DEVICE_ARGS @ DATETIME_ARGS) ''.png''
               = Inr [3, 1, 9, 9, 9]"
    by (simp add: sample_write)
  have opened: "Image_open ?E [3, 1, 9, 9, 9] = Inr ?img"
    by (simp add: sample_open_env sample_open_def)
  have marked: "add_watermark sample_pil ?img ''SAFE'' 160 = Inr ?marked"
    by (simp add: add_watermark_def Let_def alpha_composite_def Image_convert_def Image_new_def
          draw_text_def sample_pil_def)
  have png: "save_png ?E ?marked = Inr [3, 1, 9, 9, 9]"
    by (simp add: sample_env_def sample_save_def)
  have d1: "[2, 1, 7, 7, 1] = (if REMBG_OK ?E then [2, 1, 7, 7, 1] else [2, 1, 7, 7])"
    using ok by simp
  have e1: "''.png'' = (if REMBG_OK ?E then ''.png'' else current_ext (sample_app False))"
    using ok by simp
  have d2: "[3, 1, 9, 9, 9] = (if exiftool_path ?E \<noteq> None then [3, 1, 9, 9, 9] else [2, 1, 7, 7, 1])"
    by (simp add: sample_path)
  have c1: "current_bytes (sample_app False) = Some [2, 1, 7, 7]" and c2: "[2, 1, 7, 7] \<noteq> ([] :: bytes)"
    and c3: "\<not> var_striponly (sample_app False)"
    by (simp_all add: sample_app_fields)
  note T = full_pipeline_order[of "sample_app False" "[2, 1, 7, 7]" ?E 1 "[2, 1, 7, 7, 1]" "[2, 1, 7, 7, 1]"
        "''.png''" "[3, 1, 9, 9, 9]" "[3, 1, 9, 9, 9]" ?img ?marked "[3, 1, 9, 9, 9]" sample_pil rt_sample,
        OF c1 c2 c3 sess bg d1 e1 strip d2 opened png marked]
  from T[THEN conjunct2] opened
  have "current_bytes (action_safe ?E sample_pil rt_sample (sample_app False)) = Some [3, 1, 9, 9, 9]
        \<and> current_image (action_safe ?E sample_pil rt_sample (sample_app False)) = Some ?img
        \<and> current_ext (action_safe ?E sample_pil rt_sample (sample_app False)) = ''.png''"
    by blast
  with bg strip show ?thesis by blast
qed


end
